theory Spec2Isabelle
  imports Complex_Main
begin

section \<open>Values of the arrays\<close>

text \<open>
  The arrays of \<^verbatim>\<open>strategy.py\<close> hold 64-bit floats (\<^verbatim>\<open>f8\<close>), 64-bit integers
  (\<^verbatim>\<open>i8\<close>) and booleans (\<^verbatim>\<open>b1\<close>). An \<^verbatim>\<open>f8\<close> is modelled as a real number
  extended by the two infinities and one NaN. Arithmetic on finite values is exact: rounding
  and overflow of the binary format are not part of the model, and there is one zero, which
  behaves as the positive zero of the format. An \<^verbatim>\<open>i8\<close> is an \<open>int\<close>; no operation of
  the module can overflow one on arrays that fit into memory.
\<close>

datatype f8 = NaN | NInf | Fin real | PInf

fun fneg :: "f8 \<Rightarrow> f8" where
  "fneg NaN = NaN"
| "fneg NInf = PInf"
| "fneg PInf = NInf"
| "fneg (Fin x) = Fin (- x)"

fun fadd :: "f8 \<Rightarrow> f8 \<Rightarrow> f8" where
  "fadd NaN _ = NaN"
| "fadd _ NaN = NaN"
| "fadd PInf NInf = NaN"
| "fadd NInf PInf = NaN"
| "fadd PInf _ = PInf"
| "fadd _ PInf = PInf"
| "fadd NInf _ = NInf"
| "fadd _ NInf = NInf"
| "fadd (Fin x) (Fin y) = Fin (x + y)"

definition fsub :: "f8 \<Rightarrow> f8 \<Rightarrow> f8" where
  "fsub a b = fadd a (fneg b)"

text \<open>The sign of an infinite product; a zero factor against an infinity gives NaN.\<close>

definition inf_of_sign :: "real \<Rightarrow> f8" where
  "inf_of_sign x = (if x = 0 then NaN else if 0 < x then PInf else NInf)"

fun fmul :: "f8 \<Rightarrow> f8 \<Rightarrow> f8" where
  "fmul NaN _ = NaN"
| "fmul _ NaN = NaN"
| "fmul PInf PInf = PInf"
| "fmul PInf NInf = NInf"
| "fmul NInf PInf = NInf"
| "fmul NInf NInf = PInf"
| "fmul PInf (Fin y) = inf_of_sign y"
| "fmul NInf (Fin y) = inf_of_sign (- y)"
| "fmul (Fin x) PInf = inf_of_sign x"
| "fmul (Fin x) NInf = inf_of_sign (- x)"
| "fmul (Fin x) (Fin y) = Fin (x * y)"

text \<open>
  Division of arrays never raises: a finite non-zero value over zero is an infinity of the
  sign of the numerator, zero over zero and infinity over infinity are NaN.
\<close>

fun fdiv :: "f8 \<Rightarrow> f8 \<Rightarrow> f8" where
  "fdiv NaN _ = NaN"
| "fdiv _ NaN = NaN"
| "fdiv PInf PInf = NaN"
| "fdiv PInf NInf = NaN"
| "fdiv NInf PInf = NaN"
| "fdiv NInf NInf = NaN"
| "fdiv PInf (Fin y) = (if 0 \<le> y then PInf else NInf)"
| "fdiv NInf (Fin y) = (if 0 \<le> y then NInf else PInf)"
| "fdiv (Fin x) PInf = Fin 0"
| "fdiv (Fin x) NInf = Fin 0"
| "fdiv (Fin x) (Fin y) = (if y = 0 then inf_of_sign x else Fin (x / y))"

fun fabs :: "f8 \<Rightarrow> f8" where
  "fabs NaN = NaN"
| "fabs NInf = PInf"
| "fabs PInf = PInf"
| "fabs (Fin x) = Fin \<bar>x\<bar>"

text \<open>Comparisons: every comparison with NaN is false, except \<^verbatim>\<open>!=\<close>, which is true.\<close>

fun flt :: "f8 \<Rightarrow> f8 \<Rightarrow> bool" where
  "flt NaN _ = False"
| "flt _ NaN = False"
| "flt _ NInf = False"
| "flt NInf _ = True"
| "flt PInf _ = False"
| "flt (Fin x) PInf = True"
| "flt (Fin x) (Fin y) = (x < y)"

definition fgt :: "f8 \<Rightarrow> f8 \<Rightarrow> bool" where
  "fgt a b = flt b a"

definition feq :: "f8 \<Rightarrow> f8 \<Rightarrow> bool" where
  "feq a b = (a \<noteq> NaN \<and> b \<noteq> NaN \<and> a = b)"


definition fne :: "f8 \<Rightarrow> f8 \<Rightarrow> bool" where
  "fne a b = (\<not> feq a b)"

section \<open>Errors, indices and slices\<close>

text \<open>
  \<^verbatim>\<open>IndexError\<close>, \<^verbatim>\<open>KeyError\<close> and \<^verbatim>\<open>ValueError\<close> are the exceptions of the
  interpreter; \<^verbatim>\<open>InvalidParameter\<close> is the validation failure of the specification.
  A function that can raise returns \<open>error + 'a\<close>, and \<open>bindE\<close> runs the next step on
  the value of the previous one, or passes its error on.
  The compiled functions read arrays without a bounds check; a read outside an array is
  modelled as the \<^verbatim>\<open>IndexError\<close> that the interpreter raises for it.
\<close>

datatype error = IndexError | KeyError | ValueError | InvalidParameter

definition bindE :: "error + 'a \<Rightarrow> ('a \<Rightarrow> error + 'b) \<Rightarrow> error + 'b" where
  "bindE r f = (case r of Inl e \<Rightarrow> Inl e | Inr x \<Rightarrow> f x)"

definition lookup :: "('k \<rightharpoonup> 'v) \<Rightarrow> 'k \<Rightarrow> error + 'v" where
  "lookup d k = (case d k of None \<Rightarrow> Inl KeyError | Some v \<Rightarrow> Inr v)"

text \<open>
  A two-dimensional array of shape \<open>(T, C)\<close> is the list of its \<open>C\<close> columns, each a list of
  \<open>T\<close> values: the cell \<^verbatim>\<open>a[t, c]\<close> is \<open>a ! c ! t\<close>, the column \<^verbatim>\<open>a[:, c]\<close> is
  \<open>a ! c\<close>, and stacking blocks horizontally appends their column lists. An array with no
  column does not record its number of rows, which is then taken as 0.
\<close>

type_synonym 'a matrix = "'a list list"

definition shape0 :: "'a matrix \<Rightarrow> nat" where
  "shape0 a = (case a of [] \<Rightarrow> 0 | col # _ \<Rightarrow> length col)"

definition shape1 :: "'a matrix \<Rightarrow> nat" where
  "shape1 a = length a"

text \<open>An integer index: a negative one counts from the end.\<close>

definition py_index :: "nat \<Rightarrow> int \<Rightarrow> error + nat" where
  "py_index n i =
     (let j = (if i < 0 then int n + i else i)
      in if 0 \<le> j \<and> j < int n then Inr (nat j) else Inl IndexError)"

definition getitem :: "'a list \<Rightarrow> int \<Rightarrow> error + 'a" where
  "getitem xs i = bindE (py_index (length xs) i) (\<lambda>j. Inr (xs ! j))"

text \<open>The bound of a slice: a negative one counts from the end, and it is clipped to the array.\<close>

definition slice_bound :: "nat \<Rightarrow> int \<Rightarrow> nat" where
  "slice_bound n k = (if k < 0 then nat (int n + k) else min n (nat k))"

section \<open>Fixed stop-loss\<close>

text \<open>
  \<^verbatim>\<open>stoploss_exit_mask_nb(entries, col_idx, entry_idx, ts, stop, is_relative)\<close>: the column
  of \<open>ts\<close>, the stop read at the entry point, made relative to the price at the entry point
  when \<open>is_relative\<close>, and the comparison of the whole column with it.
\<close>

definition stoploss_exit_mask_nb ::
  "bool matrix \<Rightarrow> int \<Rightarrow> int \<Rightarrow> f8 matrix \<Rightarrow> f8 matrix \<Rightarrow> bool \<Rightarrow> error + bool list" where
  "stoploss_exit_mask_nb entries col_idx entry_idx ts stop is_relative =
     bindE (getitem ts col_idx) (\<lambda>ts_col.
     bindE (getitem stop col_idx) (\<lambda>stop_col.
     bindE (getitem stop_col entry_idx) (\<lambda>stop0.
     bindE (if is_relative
            then bindE (getitem ts_col entry_idx) (\<lambda>p. Inr (fmul (fsub (Fin 1) stop0) p))
            else Inr stop0) (\<lambda>stop1.
     Inr (map (\<lambda>x. flt x stop1) ts_col)))))"

section \<open>Writing a block of a result\<close>

text \<open>
  \<^verbatim>\<open>out[:, i*C:(i+1)*C] = block\<close> writes \<open>block\<close> into a slot of shape \<open>(T, C)\<close>. The
  block must have that shape, or a single row or a single column that is repeated to fill
  the slot; any other shape is a \<^verbatim>\<open>ValueError\<close>. Every result of the module is allocated
  empty and written slot by slot in order, so it is the concatenation of its blocks.
\<close>

definition broadcast_col :: "nat \<Rightarrow> 'a list \<Rightarrow> error + 'a list" where
  "broadcast_col T col =
     (if length col = T then Inr col
      else if length col = 1 then Inr (replicate T (hd col))
      else Inl ValueError)"

fun broadcast_cols :: "nat \<Rightarrow> 'a matrix \<Rightarrow> error + 'a matrix" where
  "broadcast_cols T [] = Inr []"
| "broadcast_cols T (col # cols) =
     bindE (broadcast_col T col) (\<lambda>col'.
     bindE (broadcast_cols T cols) (\<lambda>cols'. Inr (col' # cols')))"

definition broadcast_to :: "nat \<Rightarrow> nat \<Rightarrow> 'a matrix \<Rightarrow> error + 'a matrix" where
  "broadcast_to T C a =
     (if length a = C then broadcast_cols T a
      else if length a = 1 then bindE (broadcast_col T (hd a)) (\<lambda>col. Inr (replicate C col))
      else Inl ValueError)"

text \<open>An elementwise operation on two one-dimensional arrays, with the same rule.\<close>

definition broadcast2 :: "('a \<Rightarrow> 'b \<Rightarrow> 'c) \<Rightarrow> 'a list \<Rightarrow> 'b list \<Rightarrow> error + 'c list" where
  "broadcast2 f xs ys =
     (if length xs = length ys then Inr (map2 f xs ys)
      else if length xs = 1 then Inr (map (f (hd xs)) ys)
      else if length ys = 1 then Inr (map (\<lambda>x. f x (hd ys)) xs)
      else Inl ValueError)"

text \<open>
  Two arrays in one elementwise operation are first brought to a common shape: along each
  axis the lengths must agree, or one of them must be 1.
\<close>

definition common_dim :: "nat \<Rightarrow> nat \<Rightarrow> error + nat" where
  "common_dim n m =
     (if n = m then Inr n else if n = 1 then Inr m else if m = 1 then Inr n
      else Inl ValueError)"

definition broadcast_arrays :: "'a matrix \<Rightarrow> 'b matrix \<Rightarrow> error + ('a matrix \<times> 'b matrix)" where
  "broadcast_arrays a b =
     bindE (common_dim (shape0 a) (shape0 b)) (\<lambda>T.
     bindE (common_dim (shape1 a) (shape1 b)) (\<lambda>C.
     bindE (broadcast_to T C a) (\<lambda>a'.
     bindE (broadcast_to T C b) (\<lambda>b'. Inr (a', b')))))"

definition matrix_op :: "('a \<Rightarrow> 'b \<Rightarrow> 'c) \<Rightarrow> 'a matrix \<Rightarrow> 'b matrix \<Rightarrow> error + 'c matrix" where
  "matrix_op f a b =
     bindE (broadcast_arrays a b) (\<lambda>(a', b'). Inr (map2 (\<lambda>x y. map2 f x y) a' b'))"

section \<open>The exit scanner\<close>

text \<open>
  Modelled from the spec: \<^verbatim>\<open>generate_exits_nb\<close> of \<^verbatim>\<open>vectorbt.signals\<close> is imported by
  \<^verbatim>\<open>strategy.py\<close> and is not part of the sources. The model follows section 4.3 of the
  specification. Every column is scanned forward in time on its own, starting flat. A flat
  column is armed by an entry; the exit mask is computed once, for the index of that entry.
  An armed column ignores further entries and becomes flat at the first later index where
  the mask holds, which is marked as an exit. In the mode "only first" nothing else is marked
  for that entry; otherwise every later index where the same mask holds is marked as well,
  until an entry arms the column again. Only an entry strictly after the exit can arm it.
\<close>

datatype scan_state = FLAT | ARMED "bool list"

definition hit :: "bool list \<Rightarrow> nat \<Rightarrow> bool" where
  "hit m t = (t < length m \<and> m ! t)"

fun scan_col ::
  "(nat \<Rightarrow> error + bool list) \<Rightarrow> bool \<Rightarrow> bool list \<Rightarrow> nat \<Rightarrow> scan_state \<Rightarrow> bool list option
     \<Rightarrow> error + bool list" where
  "scan_col mask_at only_first [] t s prev = Inr []"
| "scan_col mask_at only_first (e # es) t (ARMED m) prev =
     (if hit m t then
        bindE (scan_col mask_at only_first es (Suc t) FLAT (if only_first then None else Some m))
          (\<lambda>r. Inr (True # r))
      else
        bindE (scan_col mask_at only_first es (Suc t) (ARMED m) prev) (\<lambda>r. Inr (False # r)))"
| "scan_col mask_at only_first (e # es) t FLAT prev =
     (if e then
        bindE (mask_at t) (\<lambda>m.
        bindE (scan_col mask_at only_first es (Suc t) (ARMED m) None) (\<lambda>r. Inr (False # r)))
      else
        bindE (scan_col mask_at only_first es (Suc t) FLAT prev)
          (\<lambda>r. Inr ((case prev of None \<Rightarrow> False | Some m \<Rightarrow> hit m t) # r)))"

fun exits_cols ::
  "(bool matrix \<Rightarrow> int \<Rightarrow> int \<Rightarrow> error + bool list) \<Rightarrow> bool \<Rightarrow> bool matrix \<Rightarrow> bool matrix \<Rightarrow> nat
     \<Rightarrow> error + bool matrix" where
  "exits_cols exit_mask_nb only_first entries [] c = Inr []"
| "exits_cols exit_mask_nb only_first entries (col # cols) c =
     bindE (scan_col (\<lambda>t. exit_mask_nb entries (int c) (int t)) only_first col 0 FLAT None)
       (\<lambda>x.
     bindE (exits_cols exit_mask_nb only_first entries cols (Suc c)) (\<lambda>xs. Inr (x # xs)))"

text \<open>
  \<^verbatim>\<open>generate_exits_nb(entries, exit_mask_nb, only_first, *args)\<close>; the extra arguments are
  already applied to \<open>exit_mask_nb\<close> here.
\<close>

definition generate_exits_nb ::
  "bool matrix \<Rightarrow> (bool matrix \<Rightarrow> int \<Rightarrow> int \<Rightarrow> error + bool list) \<Rightarrow> bool \<Rightarrow> error + bool matrix" where
  "generate_exits_nb entries exit_mask_nb only_first =
     exits_cols exit_mask_nb only_first entries entries 0"

section \<open>Stop-loss exits over a cube of stops\<close>

text \<open>\<^verbatim>\<open>stoploss_exits_nb\<close>: one block of exits for every matrix of the cube, in order.\<close>

fun stoploss_exits_nb ::
  "f8 matrix \<Rightarrow> bool matrix \<Rightarrow> f8 matrix list \<Rightarrow> bool \<Rightarrow> bool \<Rightarrow> error + bool matrix" where
  "stoploss_exits_nb ts entries [] is_relative only_first = Inr []"
| "stoploss_exits_nb ts entries (stop # stops) is_relative only_first =
     bindE (generate_exits_nb entries
              (\<lambda>en c t. stoploss_exit_mask_nb en c t ts stop is_relative) only_first)
       (\<lambda>i_exits.
     bindE (broadcast_to (shape0 ts) (shape1 ts) i_exits) (\<lambda>block.
     bindE (stoploss_exits_nb ts entries stops is_relative only_first) (\<lambda>rest.
     Inr (block @ rest))))"

text \<open>
  Modelled from the spec: the decorators \<^verbatim>\<open>broadcast\<close> and \<^verbatim>\<open>broadcast_to_cube_of\<close> of
  \<^verbatim>\<open>vectorbt.utils.decorators\<close> are not part of the sources. The price and entry matrices
  are brought to a common shape, and a mismatch that broadcasting cannot resolve is an
  \<^verbatim>\<open>InvalidParameter\<close> error. The stops are a scalar, a one-dimensional array of \<open>P\<close> values
  or a cube already; they become the cube of \<open>P\<close> matrices of the shape of the prices.
\<close>

datatype stops_arg = Scalar f8 | Array1 "f8 list" | Cube "f8 matrix list"

definition invalid :: "error + 'a \<Rightarrow> error + 'a" where
  "invalid r = (case r of Inl e \<Rightarrow> Inl InvalidParameter | Inr x \<Rightarrow> Inr x)"

definition broadcast :: "'a matrix \<Rightarrow> 'b matrix \<Rightarrow> error + ('a matrix \<times> 'b matrix)" where
  "broadcast a b = invalid (broadcast_arrays a b)"

definition full_like :: "'b matrix \<Rightarrow> 'a \<Rightarrow> 'a matrix" where
  "full_like a v = map (\<lambda>col. map (\<lambda>_. v) col) a"

fun cube_to :: "nat \<Rightarrow> nat \<Rightarrow> 'a matrix list \<Rightarrow> error + 'a matrix list" where
  "cube_to T C [] = Inr []"
| "cube_to T C (m # ms) =
     bindE (invalid (broadcast_to T C m)) (\<lambda>m'.
     bindE (cube_to T C ms) (\<lambda>ms'. Inr (m' # ms')))"

fun broadcast_to_cube_of :: "stops_arg \<Rightarrow> f8 matrix \<Rightarrow> error + f8 matrix list" where
  "broadcast_to_cube_of (Scalar v) ts = Inr [full_like ts v]"
| "broadcast_to_cube_of (Array1 vs) ts = Inr (map (full_like ts) vs)"
| "broadcast_to_cube_of (Cube ms) ts = cube_to (shape0 ts) (shape1 ts) ms"

text \<open>
  \<^verbatim>\<open>generate_stoploss_exits(ts, entries, stops, is_relative=True, only_first=True)\<close>, on
  two-dimensional \<open>ts\<close> and \<open>entries\<close>.
\<close>

definition generate_stoploss_exits ::
  "f8 matrix \<Rightarrow> bool matrix \<Rightarrow> stops_arg \<Rightarrow> bool \<Rightarrow> bool \<Rightarrow> error + bool matrix" where
  "generate_stoploss_exits ts entries stops is_relative only_first =
     bindE (broadcast ts entries) (\<lambda>(ts', entries').
     bindE (broadcast_to_cube_of stops ts') (\<lambda>cube.
     stoploss_exits_nb ts' entries' cube is_relative only_first))"

section \<open>Trailing stop\<close>

text \<open>
  Modelled from the spec: \<^verbatim>\<open>rolling_max_nb\<close>, \<^verbatim>\<open>pct_change_nb\<close>, \<^verbatim>\<open>ffill_nb\<close> and
  \<^verbatim>\<open>fillna_nb\<close> of \<^verbatim>\<open>vectorbt.timeseries\<close> are not part of the sources. They are used
  on one column here. \<^verbatim>\<open>rolling_max_nb(a, None)\<close> is the expanding maximum
  \<open>peak[t'] = max(a[0..t'])\<close>; \<^verbatim>\<open>pct_change_nb\<close> is the relative change to the previous
  row, NaN in row 0; \<^verbatim>\<open>ffill_nb\<close> carries the last value that is not NaN forward over
  NaN rows; \<^verbatim>\<open>fillna_nb\<close> replaces NaN by the given value. The specification does not say
  what a NaN price does to the maximum; here it makes the maximum NaN from there on.
\<close>

definition fmax2 :: "f8 \<Rightarrow> f8 \<Rightarrow> f8" where
  "fmax2 a b = (if a = NaN \<or> b = NaN then NaN else if flt a b then b else a)"

definition fmin2 :: "f8 \<Rightarrow> f8 \<Rightarrow> f8" where
  "fmin2 a b = (if a = NaN \<or> b = NaN then NaN else if flt b a then b else a)"

fun expanding_max_from :: "f8 \<Rightarrow> f8 list \<Rightarrow> f8 list" where
  "expanding_max_from m [] = []"
| "expanding_max_from m (x # xs) = fmax2 m x # expanding_max_from (fmax2 m x) xs"

definition rolling_max_nb :: "f8 list \<Rightarrow> f8 list" where
  "rolling_max_nb a = (case a of [] \<Rightarrow> [] | x # xs \<Rightarrow> x # expanding_max_from x xs)"

definition pct_change_nb :: "f8 list \<Rightarrow> f8 list" where
  "pct_change_nb a =
     (case a of [] \<Rightarrow> [] | _ # xs \<Rightarrow> NaN # map2 (\<lambda>prev cur. fdiv (fsub cur prev) prev) a xs)"

fun ffill_from :: "f8 \<Rightarrow> f8 list \<Rightarrow> f8 list" where
  "ffill_from v [] = []"
| "ffill_from v (x # xs) = (if x = NaN then v # ffill_from v xs else x # ffill_from x xs)"

definition ffill_nb :: "f8 list \<Rightarrow> f8 list" where
  "ffill_nb a = ffill_from NaN a"

definition fillna_nb :: "f8 list \<Rightarrow> f8 \<Rightarrow> f8 list" where
  "fillna_nb a v = map (\<lambda>x. if x = NaN then v else x) a"

text \<open>
  \<^verbatim>\<open>np.min\<close> and \<^verbatim>\<open>np.max\<close> of an array: a \<^verbatim>\<open>ValueError\<close> on an empty one, NaN as soon
  as one value is NaN. \<^verbatim>\<open>np.flatnonzero\<close>: the indices of the values that differ from 0,
  NaN among them.
\<close>

definition np_min :: "f8 list \<Rightarrow> error + f8" where
  "np_min a = (case a of [] \<Rightarrow> Inl ValueError | x # xs \<Rightarrow> Inr (foldl fmin2 x xs))"

definition np_max :: "f8 list \<Rightarrow> error + f8" where
  "np_max a = (case a of [] \<Rightarrow> Inl ValueError | x # xs \<Rightarrow> Inr (foldl fmax2 x xs))"

definition flatnonzero :: "f8 list \<Rightarrow> nat list" where
  "flatnonzero a = filter (\<lambda>i. fne (a ! i) (Fin 0)) [0..<length a]"

text \<open>
  The branch of \<^verbatim>\<open>tstop_exit_mask_nb\<close> for a stop that is not one constant: the stop of
  a row where the peak changed is kept, the other rows are \<open>-inf\<close>, and the result is
  forward-filled and its NaN replaced by \<open>-inf\<close>.
\<close>

definition ratchet_stop :: "f8 list \<Rightarrow> f8 list \<Rightarrow> error + f8 list" where
  "ratchet_stop peak stop =
     (let raising_idxs = flatnonzero (pct_change_nb peak) in
      if list_ex (\<lambda>i. length stop \<le> i) raising_idxs then Inl IndexError
      else
        (let stop_temp = map (\<lambda>i. if i \<in> set raising_idxs then stop ! i else NInf)
                             [0..<length peak]
         in Inr (fillna_nb (ffill_nb stop_temp) NInf)))"

text \<open>
  \<^verbatim>\<open>tstop_exit_mask_nb(entries, col_idx, entry_idx, ts, stop, is_relative)\<close>. The source
  turns the two columns into arrays of shape \<open>(T, 1)\<close>; the model keeps them as columns.
  The peak is NaN before the entry and the expanding maximum of the prices from the entry
  on.
\<close>

definition tstop_exit_mask_nb ::
  "bool matrix \<Rightarrow> int \<Rightarrow> int \<Rightarrow> f8 matrix \<Rightarrow> f8 matrix \<Rightarrow> bool \<Rightarrow> error + bool list" where
  "tstop_exit_mask_nb entries col_idx entry_idx ts stop is_relative =
     bindE (getitem ts col_idx) (\<lambda>ts_col.
     bindE (getitem stop col_idx) (\<lambda>stop_col.
     let start = slice_bound (length ts_col) entry_idx;
         peak = replicate start NaN @ rolling_max_nb (drop start ts_col)
     in
     bindE (np_min stop_col) (\<lambda>lo.
     bindE (np_max stop_col) (\<lambda>hi.
     bindE (if fne lo hi then ratchet_stop peak stop_col else Inr stop_col) (\<lambda>stop1.
     bindE (if is_relative then broadcast2 fmul (map (\<lambda>s. fsub (Fin 1) s) stop1) peak
            else Inr stop1) (\<lambda>stop2.
     broadcast2 flt ts_col stop2))))))"

fun tstop_exits_nb ::
  "f8 matrix \<Rightarrow> bool matrix \<Rightarrow> f8 matrix list \<Rightarrow> bool \<Rightarrow> bool \<Rightarrow> error + bool matrix" where
  "tstop_exits_nb ts entries [] is_relative only_first = Inr []"
| "tstop_exits_nb ts entries (stop # stops) is_relative only_first =
     bindE (generate_exits_nb entries
              (\<lambda>en c t. tstop_exit_mask_nb en c t ts stop is_relative) only_first)
       (\<lambda>i_exits.
     bindE (broadcast_to (shape0 ts) (shape1 ts) i_exits) (\<lambda>block.
     bindE (tstop_exits_nb ts entries stops is_relative only_first) (\<lambda>rest.
     Inr (block @ rest))))"

definition generate_tstop_exits ::
  "f8 matrix \<Rightarrow> bool matrix \<Rightarrow> stops_arg \<Rightarrow> bool \<Rightarrow> bool \<Rightarrow> error + bool matrix" where
  "generate_tstop_exits ts entries stops is_relative only_first =
     bindE (broadcast ts entries) (\<lambda>(ts', entries').
     bindE (broadcast_to_cube_of stops ts') (\<lambda>cube.
     tstop_exits_nb ts' entries' cube is_relative only_first))"

section \<open>Rolling statistics and the window cache\<close>

text \<open>
  \<^verbatim>\<open>rolling_mean_nb\<close>, \<^verbatim>\<open>rolling_std_nb\<close> and \<^verbatim>\<open>ewma_nb\<close> of
  \<^verbatim>\<open>vectorbt.timeseries\<close> are not part of the sources. The indicator functions take them
  as parameters \<open>rm\<close>, \<open>rs\<close> and \<open>ew\<close>: a routine maps an array and a window to a new
  array, or raises. The properties below hold for every such routine. A routine never
  returns its argument itself, so the assignment \<^verbatim>\<open>ma[:w, :] = np.nan\<close> changes the
  result only.
\<close>

type_synonym rolling = "f8 matrix \<Rightarrow> int \<Rightarrow> error + f8 matrix"
type_synonym ewma = "f8 matrix \<Rightarrow> int \<Rightarrow> bool \<Rightarrow> error + f8 matrix"

text \<open>
  Modelled from the spec: \<^verbatim>\<open>rolling_mean_nb\<close>, the simple moving average. The value at
  \<open>t\<close> is the arithmetic mean over the trailing window of length \<open>w\<close> that ends at \<open>t\<close>,
  computed over the shorter window that is available in the first rows. A window
  \<open>w \<le> 0\<close> is rejected with \<^verbatim>\<open>InvalidParameter\<close>. It is the routine of the concrete
  evaluations below.
\<close>

definition mean :: "f8 list \<Rightarrow> f8" where
  "mean xs = fdiv (foldl fadd (Fin 0) xs) (Fin (real (length xs)))"

definition rolling_mean_col :: "nat \<Rightarrow> f8 list \<Rightarrow> f8 list" where
  "rolling_mean_col w col = map (\<lambda>t. mean (drop (Suc t - w) (take (Suc t) col))) [0..<length col]"

definition rolling_mean_nb :: rolling where
  "rolling_mean_nb a w =
     (if w \<le> 0 then Inl InvalidParameter else Inr (map (rolling_mean_col (nat w)) a))"

text \<open>\<^verbatim>\<open>np.unique\<close>: the distinct values, in ascending order.\<close>

definition np_unique :: "int list \<Rightarrow> int list" where
  "np_unique xs = sort (remdups xs)"

text \<open>\<^verbatim>\<open>a[:k, :] = v\<close>: the first rows of every column, up to the bound of the slice.\<close>

definition set_head :: "int \<Rightarrow> 'a \<Rightarrow> 'a matrix \<Rightarrow> 'a matrix" where
  "set_head k v a =
     map (\<lambda>col. replicate (slice_bound (length col) k) v @ drop (slice_bound (length col) k) col) a"

text \<open>
  The loop that fills the cache \<^verbatim>\<open>cache_d\<close>, a dictionary from a window to its rolling
  statistics. \<open>body\<close> is the body of the loop for one window. The second component of the
  state is not a variable of the source: it records, in order, the windows for which the
  body has run, that is, for which the rolling routines have been called.
\<close>

fun cache_loop ::
  "(int \<Rightarrow> error + 'v) \<Rightarrow> int list \<Rightarrow> (int \<rightharpoonup> 'v) \<times> int list \<Rightarrow> error + ((int \<rightharpoonup> 'v) \<times> int list)" where
  "cache_loop body [] st = Inr st"
| "cache_loop body (w # ws) st =
     bindE (body w) (\<lambda>v. cache_loop body ws ((fst st)(w \<mapsto> v), snd st @ [w]))"

section \<open>Moving averages\<close>

definition ma_entry :: "rolling \<Rightarrow> ewma \<Rightarrow> f8 matrix \<Rightarrow> bool \<Rightarrow> bool \<Rightarrow> bool \<Rightarrow> int \<Rightarrow> error + f8 matrix" where
  "ma_entry rm ew ts ewm adjust min_periods w =
     bindE (if ewm then ew ts w adjust else rm ts w) (\<lambda>ma.
     Inr (if min_periods then set_head w NaN ma else ma))"

definition ma_build_cache ::
  "rolling \<Rightarrow> ewma \<Rightarrow> f8 matrix \<Rightarrow> int list \<Rightarrow> int list \<Rightarrow> bool \<Rightarrow> bool \<Rightarrow> bool
     \<Rightarrow> error + ((int \<rightharpoonup> f8 matrix) \<times> int list)" where
  "ma_build_cache rm ew ts fast_windows slow_windows ewm adjust min_periods =
     (let unique_windows = np_unique (fast_windows @ slow_windows)
      in cache_loop (ma_entry rm ew ts ewm adjust min_periods) unique_windows (Map.empty, []))"

fun ma_stack_loop ::
  "f8 matrix \<Rightarrow> (int \<rightharpoonup> f8 matrix) \<Rightarrow> int list \<Rightarrow> int list \<Rightarrow> nat \<Rightarrow> error + (f8 matrix \<times> f8 matrix)" where
  "ma_stack_loop ts cache_d [] slow_windows i = Inr ([], [])"
| "ma_stack_loop ts cache_d (f # fs) slow_windows i =
     bindE (lookup cache_d f) (\<lambda>fast_ma.
     bindE (broadcast_to (shape0 ts) (shape1 ts) fast_ma) (\<lambda>fast_block.
     bindE (getitem slow_windows (int i)) (\<lambda>s.
     bindE (lookup cache_d s) (\<lambda>slow_ma.
     bindE (broadcast_to (shape0 ts) (shape1 ts) slow_ma) (\<lambda>slow_block.
     bindE (ma_stack_loop ts cache_d fs slow_windows (Suc i)) (\<lambda>(fast_mas, slow_mas).
     Inr (fast_block @ fast_mas, slow_block @ slow_mas)))))))"

text \<open>\<^verbatim>\<open>ma_nb(ts, fast_windows, slow_windows, ewm, adjust, min_periods)\<close>.\<close>

definition ma_nb ::
  "rolling \<Rightarrow> ewma \<Rightarrow> f8 matrix \<Rightarrow> int list \<Rightarrow> int list \<Rightarrow> bool \<Rightarrow> bool \<Rightarrow> bool
     \<Rightarrow> error + (f8 matrix \<times> f8 matrix)" where
  "ma_nb rm ew ts fast_windows slow_windows ewm adjust min_periods =
     bindE (ma_build_cache rm ew ts fast_windows slow_windows ewm adjust min_periods)
       (\<lambda>(cache_d, calls). ma_stack_loop ts cache_d fast_windows slow_windows 0)"

text \<open>
  The class \<^verbatim>\<open>MovingAverage\<close>. Modelled from the spec: of the decorators of
  \<^verbatim>\<open>__init__\<close>, which are not part of the sources, \<^verbatim>\<open>broadcast\<close> brings the two window
  arrays to a common length (one of length 1 is repeated), and a mismatch is an
  \<^verbatim>\<open>InvalidParameter\<close> error. \<^verbatim>\<open>TimeSeries\<close> and \<^verbatim>\<open>Signals\<close> wrap an array; the
  comparison of two \<^verbatim>\<open>TimeSeries\<close> of one shape is elementwise.
\<close>

record MovingAverage =
  fast_mas :: "f8 matrix"
  slow_mas :: "f8 matrix"

definition broadcast_1d :: "'a list \<Rightarrow> 'a list \<Rightarrow> error + ('a list \<times> 'a list)" where
  "broadcast_1d xs ys =
     (if length xs = length ys then Inr (xs, ys)
      else if length xs = 1 then Inr (replicate (length ys) (hd xs), ys)
      else if length ys = 1 then Inr (xs, replicate (length xs) (hd ys))
      else Inl InvalidParameter)"

definition MovingAverage_init ::
  "rolling \<Rightarrow> ewma \<Rightarrow> f8 matrix \<Rightarrow> int list \<Rightarrow> int list \<Rightarrow> bool \<Rightarrow> bool \<Rightarrow> bool \<Rightarrow> error + MovingAverage" where
  "MovingAverage_init rm ew ts fast_windows slow_windows ewm adjust min_periods =
     bindE (broadcast_1d fast_windows slow_windows) (\<lambda>(fw, sw).
     bindE (ma_nb rm ew ts fw sw ewm adjust min_periods) (\<lambda>(f, s).
     Inr \<lparr>fast_mas = f, slow_mas = s\<rparr>))"

definition generate_entries :: "MovingAverage \<Rightarrow> bool matrix" where
  "generate_entries self = map2 (\<lambda>x y. map2 fgt x y) (fast_mas self) (slow_mas self)"

definition generate_exits :: "MovingAverage \<Rightarrow> bool matrix" where
  "generate_exits self = map2 (\<lambda>x y. map2 flt x y) (fast_mas self) (slow_mas self)"

section \<open>Bollinger bands\<close>

definition bb_entry :: "rolling \<Rightarrow> rolling \<Rightarrow> f8 matrix \<Rightarrow> bool \<Rightarrow> int \<Rightarrow> error + (f8 matrix \<times> f8 matrix)" where
  "bb_entry rm rs ts min_periods n =
     bindE (rm ts n) (\<lambda>ma.
     bindE (rs ts n) (\<lambda>mstd.
     Inr (if min_periods then (set_head n NaN ma, set_head n NaN mstd) else (ma, mstd))))"

definition bb_build_cache ::
  "rolling \<Rightarrow> rolling \<Rightarrow> f8 matrix \<Rightarrow> int list \<Rightarrow> bool
     \<Rightarrow> error + ((int \<rightharpoonup> f8 matrix \<times> f8 matrix) \<times> int list)" where
  "bb_build_cache rm rs ts ns min_periods =
     cache_loop (bb_entry rm rs ts min_periods) ns (Map.empty, [])"

text \<open>\<^verbatim>\<open>ks[i] * mstd\<close>: the integer multiplier becomes a float.\<close>

definition scale :: "int \<Rightarrow> f8 matrix \<Rightarrow> f8 matrix" where
  "scale k a = map (\<lambda>col. map (\<lambda>x. fmul (Fin (real_of_int k)) x) col) a"

fun bb_stack_loop ::
  "f8 matrix \<Rightarrow> (int \<rightharpoonup> f8 matrix \<times> f8 matrix) \<Rightarrow> int list \<Rightarrow> int list \<Rightarrow> nat
     \<Rightarrow> error + (f8 matrix \<times> f8 matrix \<times> f8 matrix)" where
  "bb_stack_loop ts cache_d [] ks i = Inr ([], [], [])"
| "bb_stack_loop ts cache_d (n # ns) ks i =
     bindE (lookup cache_d n) (\<lambda>(ma, mstd).
     bindE (getitem ks (int i)) (\<lambda>k.
     bindE (matrix_op fadd ma (scale k mstd)) (\<lambda>upper.
     bindE (broadcast_to (shape0 ts) (shape1 ts) upper) (\<lambda>upper_block.
     bindE (broadcast_to (shape0 ts) (shape1 ts) ma) (\<lambda>middle_block.
     bindE (matrix_op fsub ma (scale k mstd)) (\<lambda>lower.
     bindE (broadcast_to (shape0 ts) (shape1 ts) lower) (\<lambda>lower_block.
     bindE (bb_stack_loop ts cache_d ns ks (Suc i))
       (\<lambda>(upper_bands, middle_bands, lower_bands).
     Inr (upper_block @ upper_bands, middle_block @ middle_bands,
          lower_block @ lower_bands)))))))))"

text \<open>\<^verbatim>\<open>bb_nb(ts, ns, ks, min_periods)\<close>: the upper, middle and lower bands.\<close>

definition bb_nb ::
  "rolling \<Rightarrow> rolling \<Rightarrow> f8 matrix \<Rightarrow> int list \<Rightarrow> int list \<Rightarrow> bool
     \<Rightarrow> error + (f8 matrix \<times> f8 matrix \<times> f8 matrix)" where
  "bb_nb rm rs ts ns ks min_periods =
     bindE (bb_build_cache rm rs ts ns min_periods)
       (\<lambda>(cache_d, calls). bb_stack_loop ts cache_d ns ks 0)"

section \<open>RSI\<close>

text \<open>
  Modelled from the spec: \<^verbatim>\<open>diff_nb\<close>, \<^verbatim>\<open>set_by_mask_nb\<close> and \<^verbatim>\<open>prepend_nb\<close> of
  \<^verbatim>\<open>vectorbt.timeseries\<close> are not part of the sources. \<^verbatim>\<open>diff_nb\<close> is the first
  difference along time, NaN in row 0; \<^verbatim>\<open>set_by_mask_nb(a, mask, v)\<close> is \<open>a\<close> with the
  cells of the mask set to \<open>v\<close>; \<^verbatim>\<open>prepend_nb(a, n, v)\<close> is \<open>a\<close> with \<open>n\<close> rows of \<open>v\<close>
  put on top.
\<close>

definition diff_nb :: "f8 matrix \<Rightarrow> f8 matrix" where
  "diff_nb a =
     map (\<lambda>col. case col of [] \<Rightarrow> [] | _ # xs \<Rightarrow> NaN # map2 (\<lambda>prev cur. fsub cur prev) col xs) a"

definition set_by_mask_nb :: "'a matrix \<Rightarrow> bool matrix \<Rightarrow> 'a \<Rightarrow> 'a matrix" where
  "set_by_mask_nb a msk v = map2 (\<lambda>col mcol. map2 (\<lambda>x m. if m then v else x) col mcol) a msk"

definition prepend_nb :: "'a matrix \<Rightarrow> nat \<Rightarrow> 'a \<Rightarrow> 'a matrix" where
  "prepend_nb a n v = map (\<lambda>col. replicate n v @ col) a"

text \<open>The up-moves and down-moves that \<^verbatim>\<open>rsi_nb\<close> computes before its loops.\<close>

definition rsi_up :: "f8 matrix \<Rightarrow> f8 matrix" where
  "rsi_up ts =
     (let delta = map (drop 1) (diff_nb ts); up = delta
      in set_by_mask_nb up (map (map (\<lambda>x. flt x (Fin 0))) up) (Fin 0))"

definition rsi_down :: "f8 matrix \<Rightarrow> f8 matrix" where
  "rsi_down ts =
     (let delta = map (drop 1) (diff_nb ts); down = delta
      in map (map fabs) (set_by_mask_nb down (map (map (\<lambda>x. fgt x (Fin 0))) down) (Fin 0)))"

definition rsi_entry ::
  "rolling \<Rightarrow> ewma \<Rightarrow> f8 matrix \<Rightarrow> f8 matrix \<Rightarrow> bool \<Rightarrow> bool \<Rightarrow> bool \<Rightarrow> int
     \<Rightarrow> error + (f8 matrix \<times> f8 matrix)" where
  "rsi_entry rm ew up down ewm adjust min_periods w =
     bindE (if ewm then ew up w adjust else rm up w) (\<lambda>roll_up0.
     bindE (if ewm then ew down w adjust else rm down w) (\<lambda>roll_down0.
     let roll_up = prepend_nb roll_up0 1 NaN;
         roll_down = prepend_nb roll_down0 1 NaN
     in Inr (if min_periods then (set_head w NaN roll_up, set_head w NaN roll_down)
             else (roll_up, roll_down))))"

definition rsi_build_cache ::
  "rolling \<Rightarrow> ewma \<Rightarrow> f8 matrix \<Rightarrow> int list \<Rightarrow> bool \<Rightarrow> bool \<Rightarrow> bool
     \<Rightarrow> error + ((int \<rightharpoonup> f8 matrix \<times> f8 matrix) \<times> int list)" where
  "rsi_build_cache rm ew ts windows ewm adjust min_periods =
     (let unique_windows = np_unique windows
      in cache_loop (rsi_entry rm ew (rsi_up ts) (rsi_down ts) ewm adjust min_periods)
           unique_windows (Map.empty, []))"

text \<open>\<^verbatim>\<open>100 - 100 / (1 + rs)\<close> for one cell \<open>rs\<close> of \<^verbatim>\<open>roll_up / roll_down\<close>.\<close>

definition rsi_formula :: "f8 \<Rightarrow> f8" where
  "rsi_formula rs = fsub (Fin 100) (fdiv (Fin 100) (fadd (Fin 1) rs))"

fun rsi_stack_loop ::
  "f8 matrix \<Rightarrow> (int \<rightharpoonup> f8 matrix \<times> f8 matrix) \<Rightarrow> int list \<Rightarrow> error + f8 matrix" where
  "rsi_stack_loop ts cache_d [] = Inr []"
| "rsi_stack_loop ts cache_d (w # ws) =
     bindE (lookup cache_d w) (\<lambda>(roll_up, roll_down).
     bindE (matrix_op fdiv roll_up roll_down) (\<lambda>rs.
     bindE (broadcast_to (shape0 ts) (shape1 ts) (map (map rsi_formula) rs)) (\<lambda>block.
     bindE (rsi_stack_loop ts cache_d ws) (\<lambda>rsi.
     Inr (block @ rsi)))))"

text \<open>\<^verbatim>\<open>rsi_nb(ts, windows, ewm, adjust, min_periods)\<close>.\<close>

definition rsi_nb ::
  "rolling \<Rightarrow> ewma \<Rightarrow> f8 matrix \<Rightarrow> int list \<Rightarrow> bool \<Rightarrow> bool \<Rightarrow> bool \<Rightarrow> error + f8 matrix" where
  "rsi_nb rm ew ts windows ewm adjust min_periods =
     bindE (rsi_build_cache rm ew ts windows ewm adjust min_periods)
       (\<lambda>(cache_d, calls). rsi_stack_loop ts cache_d windows)"

text \<open>
  The two properties of a cell that the statements about the RSI use: a value that is not
  below zero (NaN and \<open>+inf\<close> among them), and a value that is NaN or a number from 0 to
  100.
\<close>

definition nonneg :: "f8 \<Rightarrow> bool" where
  "nonneg x = (\<not> flt x (Fin 0))"

definition in_rsi_range :: "f8 \<Rightarrow> bool" where
  "in_rsi_range x = (case x of Fin r \<Rightarrow> 0 \<le> r \<and> r \<le> 100 | NaN \<Rightarrow> True | _ \<Rightarrow> False)"

section \<open>Blocks of a sweep\<close>

text \<open>
  Block \<open>i\<close> of a sweep result over prices with \<open>C\<close> columns: the columns \<open>i * C\<close> up to
  \<open>(i + 1) * C - 1\<close>, the slice \<^verbatim>\<open>a[:, i*C:(i+1)*C]\<close>.
\<close>

definition block :: "nat \<Rightarrow> nat \<Rightarrow> 'a matrix \<Rightarrow> 'a matrix" where
  "block C i a = take C (drop (i * C) a)"

text \<open>
  The dictionary that the cache loop leaves when it has run over the windows \<open>ws\<close> from
  the dictionary \<open>d\<close>: every window of \<open>ws\<close> is bound to the result of the loop body.
\<close>

definition the_cache :: "(int \<Rightarrow> error + 'v) \<Rightarrow> int list \<Rightarrow> (int \<rightharpoonup> 'v) \<Rightarrow> (int \<rightharpoonup> 'v)" where
  "the_cache body ws d =
     (\<lambda>w. if w \<in> set ws then (case body w of Inl e \<Rightarrow> None | Inr v \<Rightarrow> Some v) else d w)"

section \<open>Properties\<close>

lemma bindE_simps [simp]: "bindE (Inl e) f = Inl e" "bindE (Inr x) f = f x"
  by (simp_all add: bindE_def)

lemma bindE_eq_Inr: "bindE r f = Inr y \<longleftrightarrow> (\<exists>x. r = Inr x \<and> f x = Inr y)"
  by (cases r) simp_all

lemma py_index_nat [simp]: "i < n \<Longrightarrow> py_index n (int i) = Inr i"
  by (simp add: py_index_def)

lemma getitem_nat [simp]: "i < length xs \<Longrightarrow> getitem xs (int i) = Inr (xs ! i)"
  by (simp add: getitem_def)

text \<open>
  C1. For a column \<open>c\<close> and an entry index \<open>t\<close> inside both arrays, the mask of the fixed
  stop-loss has one flag for every row of the price column, and the flag at \<open>t'\<close> says
  whether the price at \<open>t'\<close> is strictly below the effective stop: \<open>stop[t, c]\<close> when the
  stop is absolute, \<open>(1 - stop[t, c]) * ts[t, c]\<close> when it is relative. The effective stop
  is read at the entry index and does not depend on \<open>t'\<close>.
\<close>

theorem stoploss_exit_mask_anchored:
  assumes "c < length ts" and "c < length stop"
    and "t < length (ts ! c)" and "t < length (stop ! c)"
  shows "\<exists>mask. stoploss_exit_mask_nb entries (int c) (int t) ts stop is_relative = Inr mask
     \<and> length mask = length (ts ! c)
     \<and> (\<forall>t' < length (ts ! c). mask ! t' =
          flt (ts ! c ! t')
              (if is_relative then fmul (fsub (Fin 1) (stop ! c ! t)) (ts ! c ! t)
               else stop ! c ! t))"
  using assms by (simp add: stoploss_exit_mask_nb_def)

theorem stoploss_exit_mask_anchored_witness:
  "(0::nat) < length [[Fin 10, Fin 9, Fin 8]]
   \<and> (1::nat) < length ([[Fin 10, Fin 9, Fin 8]] ! 0)
   \<and> (\<exists>mask. stoploss_exit_mask_nb [[False, True, False]] 0 1
          [[Fin 10, Fin 9, Fin 8]] [[Fin 0, Fin (1/10), Fin 0]] True = Inr mask
        \<and> length mask = 3 \<and> \<not> mask ! 0 \<and> \<not> mask ! 1 \<and> mask ! 2)"
proof -
  let ?ts = "[[Fin 10, Fin 9, Fin 8]]" and ?stop = "[[Fin 0, Fin (1/10), Fin 0]]"
  have h1: "(0::nat) < length ?ts" and h2: "(0::nat) < length ?stop"
    and h3: "(1::nat) < length (?ts ! 0)" and h4: "(1::nat) < length (?stop ! 0)"
    by simp_all
  from stoploss_exit_mask_anchored [OF h1 h2 h3 h4, of "[[False, True, False]]" True]
  obtain mask where m: "stoploss_exit_mask_nb [[False, True, False]] (int 0) (int 1) ?ts ?stop True
      = Inr mask"
    and l: "length mask = length (?ts ! 0)"
    and c: "\<And>t'. t' < length (?ts ! 0) \<Longrightarrow> mask ! t' =
        flt (?ts ! 0 ! t') (fmul (fsub (Fin 1) (?stop ! 0 ! 1)) (?ts ! 0 ! 1))"
    by auto
  have "\<not> mask ! 0" "\<not> mask ! 1" "mask ! 2"
    using c [of 0] c [of 1] c [of 2] by (simp_all add: fsub_def)
  with m l h1 h3 show ?thesis by simp
qed

subsection \<open>Indices, blocks and the cache loop\<close>

lemma getitem_Inr_nat: "getitem xs (int i) = Inr x \<longleftrightarrow> i < length xs \<and> x = xs ! i"
  by (auto simp: getitem_def py_index_def bindE_eq_Inr)

lemma lookup_Inr: "lookup d k = Inr v \<longleftrightarrow> d k = Some v"
  by (simp add: lookup_def split: option.splits)

lemma broadcast_cols_length: "broadcast_cols T a = Inr b \<Longrightarrow> length b = length a"
  by (induction a arbitrary: b) (auto simp: bindE_eq_Inr)

lemma broadcast_to_length: "broadcast_to T C a = Inr b \<Longrightarrow> length b = C"
  by (auto simp: broadcast_to_def bindE_eq_Inr split: if_splits dest: broadcast_cols_length)

lemma broadcast_cols_same: "\<forall>col \<in> set a. length col = T \<Longrightarrow> broadcast_cols T a = Inr a"
  by (induction a) (auto simp: broadcast_col_def)

lemma broadcast_to_same: "length a = C \<Longrightarrow> \<forall>col \<in> set a. length col = T \<Longrightarrow> broadcast_to T C a = Inr a"
  by (simp add: broadcast_to_def broadcast_cols_same)

lemma cache_loop_Inr:
  "cache_loop body ws st = Inr st' \<longleftrightarrow>
     (\<forall>w \<in> set ws. \<exists>v. body w = Inr v) \<and> st' = (the_cache body ws (fst st), snd st @ ws)"
proof (induction ws arbitrary: st)
  case Nil
  show ?case by (auto simp: the_cache_def)
next
  case (Cons w ws)
  show ?case
    by (auto simp: bindE_eq_Inr Cons.IH the_cache_def fun_eq_iff)
qed

lemma block_0_append: "length b = C \<Longrightarrow> block C 0 (b @ r) = b"
  by (simp add: block_def)

lemma block_Suc_append: "length b = C \<Longrightarrow> block C (Suc j) (b @ r) = block C j r"
  by (simp add: block_def)

lemma ma_stack_loop_blocks:
  "ma_stack_loop ts d fs slow i = Inr (F, S) \<Longrightarrow> j < length fs \<Longrightarrow>
     \<exists>fm sm. d (fs ! j) = Some fm \<and> i + j < length slow \<and> d (slow ! (i + j)) = Some sm
       \<and> broadcast_to (shape0 ts) (shape1 ts) fm = Inr (block (shape1 ts) j F)
       \<and> broadcast_to (shape0 ts) (shape1 ts) sm = Inr (block (shape1 ts) j S)"
proof (induction fs arbitrary: i j F S)
  case Nil
  then show ?case by simp
next
  case (Cons f fs)
  from Cons.prems(1) obtain fm fb sm sb F' S' where
    a: "d f = Some fm" "broadcast_to (shape0 ts) (shape1 ts) fm = Inr fb"
       "i < length slow" "d (slow ! i) = Some sm"
       "broadcast_to (shape0 ts) (shape1 ts) sm = Inr sb"
       "ma_stack_loop ts d fs slow (Suc i) = Inr (F', S')"
       "F = fb @ F'" "S = sb @ S'"
    by (auto simp: bindE_eq_Inr lookup_Inr getitem_Inr_nat)
  have l: "length fb = shape1 ts" "length sb = shape1 ts"
    using a by (auto dest: broadcast_to_length)
  show ?case
  proof (cases j)
    case 0
    then show ?thesis using a l by (simp add: block_0_append)
  next
    case (Suc j')
    with Cons.prems(2) have "j' < length fs" by simp
    from Cons.IH [OF a(6) this] show ?thesis
      using a l Suc by (simp add: block_Suc_append)
  qed
qed

lemma set_np_unique [simp]: "set (np_unique xs) = set xs"
  by (simp add: np_unique_def)

lemma distinct_np_unique [simp]: "distinct (np_unique xs)"
  by (simp add: np_unique_def)

lemma ma_nb_Inr:
  "ma_nb rm ew ts fast slow ewm adjust mp = Inr (F, S) \<longleftrightarrow>
     (\<forall>w \<in> set (fast @ slow). \<exists>v. ma_entry rm ew ts ewm adjust mp w = Inr v)
     \<and> ma_stack_loop ts (the_cache (ma_entry rm ew ts ewm adjust mp) (np_unique (fast @ slow)) Map.empty)
          fast slow 0 = Inr (F, S)"
  by (auto simp: ma_nb_def ma_build_cache_def bindE_eq_Inr cache_loop_Inr)

lemma ma_nb_block:
  assumes "ma_nb rm ew ts fast slow ewm adjust mp = Inr (F, S)" and "i < length fast"
  shows "ma_nb rm ew ts [fast ! i] [slow ! i] ewm adjust mp
           = Inr (block (shape1 ts) i F, block (shape1 ts) i S)"
proof -
  let ?body = "ma_entry rm ew ts ewm adjust mp"
  let ?d = "the_cache ?body (np_unique (fast @ slow)) Map.empty"
  from assms(1) have ok: "\<forall>w \<in> set (fast @ slow). \<exists>v. ?body w = Inr v"
    and st: "ma_stack_loop ts ?d fast slow 0 = Inr (F, S)"
    by (simp_all add: ma_nb_Inr)
  from ma_stack_loop_blocks [OF st assms(2)] obtain fm sm where
    b: "?d (fast ! i) = Some fm" "i < length slow" "?d (slow ! i) = Some sm"
       "broadcast_to (shape0 ts) (shape1 ts) fm = Inr (block (shape1 ts) i F)"
       "broadcast_to (shape0 ts) (shape1 ts) sm = Inr (block (shape1 ts) i S)"
    by auto
  from b(1,3) have e: "?body (fast ! i) = Inr fm" "?body (slow ! i) = Inr sm"
    by (auto simp: the_cache_def split: if_splits sum.splits)
  let ?d1 = "the_cache ?body (np_unique ([fast ! i] @ [slow ! i])) Map.empty"
  have d1: "?d1 (fast ! i) = Some fm" "?d1 (slow ! i) = Some sm"
    using e by (simp_all add: the_cache_def)
  show ?thesis
    unfolding ma_nb_Inr using e d1 b(4,5)
    by (auto simp: lookup_def getitem_def py_index_def)
qed

lemma rsi_stack_loop_blocks:
  "rsi_stack_loop ts d ws = Inr R \<Longrightarrow> j < length ws \<Longrightarrow>
     \<exists>ru rd rs. d (ws ! j) = Some (ru, rd) \<and> matrix_op fdiv ru rd = Inr rs
       \<and> broadcast_to (shape0 ts) (shape1 ts) (map (map rsi_formula) rs)
           = Inr (block (shape1 ts) j R)"
proof (induction ws arbitrary: j R)
  case Nil
  then show ?case by simp
next
  case (Cons w ws)
  from Cons.prems(1) obtain ru rd rs b R' where
    a: "d w = Some (ru, rd)" "matrix_op fdiv ru rd = Inr rs"
       "broadcast_to (shape0 ts) (shape1 ts) (map (map rsi_formula) rs) = Inr b"
       "rsi_stack_loop ts d ws = Inr R'" "R = b @ R'"
    by (auto simp: bindE_eq_Inr lookup_Inr)
  have l: "length b = shape1 ts"
    using a by (auto dest: broadcast_to_length)
  show ?case
  proof (cases j)
    case 0
    then show ?thesis using a l by (simp add: block_0_append)
  next
    case (Suc j')
    with Cons.prems(2) have "j' < length ws" by simp
    from Cons.IH [OF a(4) this] show ?thesis
      using a l Suc by (simp add: block_Suc_append)
  qed
qed

lemma rsi_nb_Inr:
  "rsi_nb rm ew ts windows ewm adjust mp = Inr R \<longleftrightarrow>
     (\<forall>w \<in> set windows. \<exists>v. rsi_entry rm ew (rsi_up ts) (rsi_down ts) ewm adjust mp w = Inr v)
     \<and> rsi_stack_loop ts
          (the_cache (rsi_entry rm ew (rsi_up ts) (rsi_down ts) ewm adjust mp)
             (np_unique windows) Map.empty) windows = Inr R"
  by (auto simp: rsi_nb_def rsi_build_cache_def bindE_eq_Inr cache_loop_Inr)

lemma rsi_nb_block:
  assumes "rsi_nb rm ew ts windows ewm adjust mp = Inr R" and "i < length windows"
  shows "rsi_nb rm ew ts [windows ! i] ewm adjust mp = Inr (block (shape1 ts) i R)"
proof -
  let ?body = "rsi_entry rm ew (rsi_up ts) (rsi_down ts) ewm adjust mp"
  let ?d = "the_cache ?body (np_unique windows) Map.empty"
  from assms(1) have st: "rsi_stack_loop ts ?d windows = Inr R"
    by (simp add: rsi_nb_Inr)
  from rsi_stack_loop_blocks [OF st assms(2)] obtain ru rd rs where
    b: "?d (windows ! i) = Some (ru, rd)" "matrix_op fdiv ru rd = Inr rs"
       "broadcast_to (shape0 ts) (shape1 ts) (map (map rsi_formula) rs)
          = Inr (block (shape1 ts) i R)"
    by auto
  from b(1) have e: "?body (windows ! i) = Inr (ru, rd)"
    by (auto simp: the_cache_def split: if_splits sum.splits)
  have d1: "the_cache ?body (np_unique [windows ! i]) Map.empty (windows ! i) = Some (ru, rd)"
    using e by (simp add: the_cache_def)
  show ?thesis
    unfolding rsi_nb_Inr using e d1 b(2,3) by (auto simp: lookup_def)
qed

lemma bb_stack_loop_blocks:
  "bb_stack_loop ts d ns ks i = Inr (U, M, L) \<Longrightarrow> j < length ns \<Longrightarrow>
     \<exists>ma mstd up lo. d (ns ! j) = Some (ma, mstd) \<and> i + j < length ks
       \<and> matrix_op fadd ma (scale (ks ! (i + j)) mstd) = Inr up
       \<and> matrix_op fsub ma (scale (ks ! (i + j)) mstd) = Inr lo
       \<and> broadcast_to (shape0 ts) (shape1 ts) up = Inr (block (shape1 ts) j U)
       \<and> broadcast_to (shape0 ts) (shape1 ts) ma = Inr (block (shape1 ts) j M)
       \<and> broadcast_to (shape0 ts) (shape1 ts) lo = Inr (block (shape1 ts) j L)"
proof (induction ns arbitrary: i j U M L)
  case Nil
  then show ?case by simp
next
  case (Cons n ns)
  from Cons.prems(1) obtain ma mstd up ub mb lo lb U' M' L' where
    a: "d n = Some (ma, mstd)" "i < length ks"
       "matrix_op fadd ma (scale (ks ! i) mstd) = Inr up"
       "broadcast_to (shape0 ts) (shape1 ts) up = Inr ub"
       "broadcast_to (shape0 ts) (shape1 ts) ma = Inr mb"
       "matrix_op fsub ma (scale (ks ! i) mstd) = Inr lo"
       "broadcast_to (shape0 ts) (shape1 ts) lo = Inr lb"
       "bb_stack_loop ts d ns ks (Suc i) = Inr (U', M', L')"
       "U = ub @ U'" "M = mb @ M'" "L = lb @ L'"
    by (auto simp: bindE_eq_Inr lookup_Inr getitem_Inr_nat)
  have l: "length ub = shape1 ts" "length mb = shape1 ts" "length lb = shape1 ts"
    using a by (auto dest: broadcast_to_length)
  show ?case
  proof (cases j)
    case 0
    then show ?thesis using a l by (simp add: block_0_append)
  next
    case (Suc j')
    with Cons.prems(2) have "j' < length ns" by simp
    from Cons.IH [OF a(8) this] show ?thesis
      using a l Suc by (simp add: block_Suc_append)
  qed
qed

lemma bb_nb_Inr:
  "bb_nb rm rs ts ns ks mp = Inr (U, M, L) \<longleftrightarrow>
     (\<forall>n \<in> set ns. \<exists>v. bb_entry rm rs ts mp n = Inr v)
     \<and> bb_stack_loop ts (the_cache (bb_entry rm rs ts mp) ns Map.empty) ns ks 0 = Inr (U, M, L)"
  by (auto simp: bb_nb_def bb_build_cache_def bindE_eq_Inr cache_loop_Inr)

lemma bb_nb_block:
  assumes "bb_nb rm rs ts ns ks mp = Inr (U, M, L)" and "i < length ns"
  shows "bb_nb rm rs ts [ns ! i] [ks ! i] mp
           = Inr (block (shape1 ts) i U, block (shape1 ts) i M, block (shape1 ts) i L)"
proof -
  let ?body = "bb_entry rm rs ts mp"
  let ?d = "the_cache ?body ns Map.empty"
  from assms(1) have st: "bb_stack_loop ts ?d ns ks 0 = Inr (U, M, L)"
    by (simp add: bb_nb_Inr)
  from bb_stack_loop_blocks [OF st assms(2)] obtain ma mstd up lo where
    b: "?d (ns ! i) = Some (ma, mstd)" "i < length ks"
       "matrix_op fadd ma (scale (ks ! i) mstd) = Inr up"
       "matrix_op fsub ma (scale (ks ! i) mstd) = Inr lo"
       "broadcast_to (shape0 ts) (shape1 ts) up = Inr (block (shape1 ts) i U)"
       "broadcast_to (shape0 ts) (shape1 ts) ma = Inr (block (shape1 ts) i M)"
       "broadcast_to (shape0 ts) (shape1 ts) lo = Inr (block (shape1 ts) i L)"
    by auto
  from b(1) have e: "?body (ns ! i) = Inr (ma, mstd)"
    by (auto simp: the_cache_def split: if_splits sum.splits)
  have d1: "the_cache ?body [ns ! i] Map.empty (ns ! i) = Some (ma, mstd)"
    using e by (simp add: the_cache_def)
  show ?thesis
    unfolding bb_nb_Inr using e d1 b(3-7) by (auto simp: lookup_def getitem_def py_index_def)
qed

lemma ma_nb_same_window:
  assumes "ma_nb rm ew ts fast slow ewm adjust mp = Inr (F, S)"
    and "i < length fast" and "j < length fast"
  shows "(fast ! i = fast ! j \<longrightarrow> block (shape1 ts) i F = block (shape1 ts) j F)
       \<and> (slow ! i = slow ! j \<longrightarrow> block (shape1 ts) i S = block (shape1 ts) j S)"
proof -
  from assms(1) have st: "ma_stack_loop ts
      (the_cache (ma_entry rm ew ts ewm adjust mp) (np_unique (fast @ slow)) Map.empty)
      fast slow 0 = Inr (F, S)"
    by (simp add: ma_nb_Inr)
  from ma_stack_loop_blocks [OF st assms(2)] ma_stack_loop_blocks [OF st assms(3)]
  show ?thesis by auto
qed

lemma rsi_nb_same_window:
  assumes "rsi_nb rm ew ts windows ewm adjust mp = Inr R"
    and "i < length windows" and "j < length windows" and "windows ! i = windows ! j"
  shows "block (shape1 ts) i R = block (shape1 ts) j R"
proof -
  from assms(1) have st: "rsi_stack_loop ts
      (the_cache (rsi_entry rm ew (rsi_up ts) (rsi_down ts) ewm adjust mp)
         (np_unique windows) Map.empty) windows = Inr R"
    by (simp add: rsi_nb_Inr)
  from rsi_stack_loop_blocks [OF st assms(2)] rsi_stack_loop_blocks [OF st assms(3)] assms(4)
  show ?thesis by auto
qed

subsection \<open>The two scenarios of the stop generators\<close>

text \<open>
  C2. For the single price column \<open>[10, 9, 11, 8, 12]\<close>, an entry in row 0, one relative stop
  of \<open>0.1\<close> and \<open>only_first\<close>, \<^verbatim>\<open>generate_stoploss_exits\<close> returns the single column
  \<open>[false, false, false, true, false]\<close>. The effective stop is \<open>(1 - 0.1) * 10 = 9\<close>, and the
  mask of the entry holds in row 3 only, where the price 8 is below 9.
\<close>

theorem stoploss_scenario:
  "generate_stoploss_exits [[Fin 10, Fin 9, Fin 11, Fin 8, Fin 12]]
       [[True, False, False, False, False]] (Scalar (Fin (1/10))) True True
     = Inr [[False, False, False, True, False]]
   \<and> fmul (fsub (Fin 1) (Fin (1/10))) (Fin 10) = Fin 9
   \<and> stoploss_exit_mask_nb [[True, False, False, False, False]] 0 0
        [[Fin 10, Fin 9, Fin 11, Fin 8, Fin 12]]
        [[Fin (1/10), Fin (1/10), Fin (1/10), Fin (1/10), Fin (1/10)]] True
     = Inr [False, False, False, True, False]"
  by code_simp

text \<open>
  C3. For the single price column \<open>[10, 12, 11, 15, 9]\<close>, an entry in row 0 and one relative
  trailing stop of \<open>0.2\<close>, \<^verbatim>\<open>generate_tstop_exits\<close> (with its default \<open>only_first\<close>)
  returns the single column \<open>[false, false, false, false, true]\<close>. The expanding peak from
  the entry is \<open>[10, 12, 12, 15, 15]\<close>, the thresholds \<open>(1 - 0.2) * peak\<close> are
  \<open>[8, 9.6, 9.6, 12, 12]\<close>, and the mask holds in row 4 only, where the price 9 is below 12.
\<close>

theorem tstop_scenario:
  "generate_tstop_exits [[Fin 10, Fin 12, Fin 11, Fin 15, Fin 9]]
       [[True, False, False, False, False]] (Scalar (Fin (2/10))) True True
     = Inr [[False, False, False, False, True]]
   \<and> rolling_max_nb [Fin 10, Fin 12, Fin 11, Fin 15, Fin 9]
     = [Fin 10, Fin 12, Fin 12, Fin 15, Fin 15]
   \<and> map (\<lambda>peak. fmul (fsub (Fin 1) (Fin (2/10))) peak)
        [Fin 10, Fin 12, Fin 12, Fin 15, Fin 15]
     = [Fin 8, Fin (96/10), Fin (96/10), Fin 12, Fin 12]
   \<and> tstop_exit_mask_nb [[True, False, False, False, False]] 0 0
        [[Fin 10, Fin 12, Fin 11, Fin 15, Fin 9]]
        [[Fin (2/10), Fin (2/10), Fin (2/10), Fin (2/10), Fin (2/10)]] True
     = Inr [False, False, False, False, True]"
  by code_simp

subsection \<open>Signals of the moving averages\<close>

lemma flt_asym: "flt a b \<Longrightarrow> \<not> flt b a"
  by (cases a; cases b) auto

lemma flt_irrefl [simp]: "\<not> flt a a"
  by (cases a) auto

text \<open>
  C6. In every cell of the signals of a \<^verbatim>\<open>MovingAverage\<close>, the entry is \<open>fast > slow\<close> and
  the exit is \<open>fast < slow\<close>; they are never both true, and where the fast and the slow
  moving average are equal both are false.
\<close>

theorem entries_exits_exclusive:
  assumes "c < length (generate_entries self)" and "t < length (generate_entries self ! c)"
  shows "generate_entries self ! c ! t = fgt (fast_mas self ! c ! t) (slow_mas self ! c ! t)
     \<and> generate_exits self ! c ! t = flt (fast_mas self ! c ! t) (slow_mas self ! c ! t)
     \<and> \<not> (generate_entries self ! c ! t \<and> generate_exits self ! c ! t)
     \<and> (fast_mas self ! c ! t = slow_mas self ! c ! t
          \<longrightarrow> \<not> generate_entries self ! c ! t \<and> \<not> generate_exits self ! c ! t)"
proof -
  from assms have e: "generate_entries self ! c ! t = fgt (fast_mas self ! c ! t) (slow_mas self ! c ! t)"
    and x: "generate_exits self ! c ! t = flt (fast_mas self ! c ! t) (slow_mas self ! c ! t)"
    by (simp_all add: generate_entries_def generate_exits_def)
  show ?thesis
    unfolding e x by (auto simp: fgt_def dest: flt_asym)
qed

theorem entries_exits_exclusive_witness:
  "MovingAverage_init rolling_mean_nb (\<lambda>a w adjust. Inl InvalidParameter)
       [[Fin 1, Fin 1, Fin 3, Fin 2]] [1] [2] False False False
     = Inr \<lparr>fast_mas = [[Fin 1, Fin 1, Fin 3, Fin 2]], slow_mas = [[Fin 1, Fin 1, Fin 2, Fin (5/2)]]\<rparr>
   \<and> generate_entries \<lparr>fast_mas = [[Fin 1, Fin 1, Fin 3, Fin 2]], slow_mas = [[Fin 1, Fin 1, Fin 2, Fin (5/2)]]\<rparr>
     = [[False, False, True, False]]
   \<and> generate_exits \<lparr>fast_mas = [[Fin 1, Fin 1, Fin 3, Fin 2]], slow_mas = [[Fin 1, Fin 1, Fin 2, Fin (5/2)]]\<rparr>
     = [[False, False, False, True]]"
proof -
  let ?self = "\<lparr>fast_mas = [[Fin 1, Fin 1, Fin 3, Fin 2]], slow_mas = [[Fin 1, Fin 1, Fin 2, Fin (5/2)]]\<rparr>"
  have i: "MovingAverage_init rolling_mean_nb (\<lambda>a w adjust. Inl InvalidParameter)
       [[Fin 1, Fin 1, Fin 3, Fin 2]] [1] [2] False False False = Inr ?self"
    by code_simp
  have l: "length (generate_entries ?self) = 1" "length (generate_entries ?self ! 0) = 4"
      "length (generate_exits ?self) = 1" "length (generate_exits ?self ! 0) = 4"
    by (simp_all add: generate_entries_def generate_exits_def)
  have c: "(0::nat) < length (generate_entries ?self)" using l by simp
  have t: "\<And>t. t < 4 \<Longrightarrow> t < length (generate_entries ?self ! 0)" using l by simp
  have "generate_entries ?self ! 0 = [False, False, True, False]
      \<and> generate_exits ?self ! 0 = [False, False, False, True]"
    using entries_exits_exclusive [OF c t, of 0] entries_exits_exclusive [OF c t, of 1]
      entries_exits_exclusive [OF c t, of 2] entries_exits_exclusive [OF c t, of 3] l
    by (simp add: list_eq_iff_nth_eq less_Suc_eq fgt_def eval_nat_numeral)
  then have "generate_entries ?self = [[False, False, True, False]]
      \<and> generate_exits ?self = [[False, False, False, True]]"
    using l by (simp add: list_eq_iff_nth_eq)
  with i show ?thesis by simp
qed

subsection \<open>Blocks of a sweep and single runs\<close>

lemma bb_nb_same_window:
  assumes "bb_nb rm rs ts ns ks mp = Inr (U, M, L)"
    and "i < length ns" and "j < length ns" and "ns ! i = ns ! j"
  shows "block (shape1 ts) i M = block (shape1 ts) j M"
proof -
  from assms(1) have st: "bb_stack_loop ts (the_cache (bb_entry rm rs ts mp) ns Map.empty)
      ns ks 0 = Inr (U, M, L)"
    by (simp add: bb_nb_Inr)
  from bb_stack_loop_blocks [OF st assms(2)] bb_stack_loop_blocks [OF st assms(3)] assms(4)
  show ?thesis by auto
qed

text \<open>
  C4. When a sweep over several parameters returns, block \<open>i\<close> of each of its results is the
  result of the run with parameter \<open>i\<close> alone: the fast and slow moving averages of
  \<^verbatim>\<open>ma_nb\<close>, the RSI of \<^verbatim>\<open>rsi_nb\<close> and the three bands of \<^verbatim>\<open>bb_nb\<close>. In particular two
  positions of the sweep with the same window have the same block: the fast (slow) blocks
  of \<^verbatim>\<open>ma_nb\<close> for equal fast (slow) windows, the blocks of \<^verbatim>\<open>rsi_nb\<close>, and the middle
  band of \<^verbatim>\<open>bb_nb\<close>, whose upper and lower bands depend on the multiplier as well. This
  holds for every rolling routine.
\<close>

theorem sweep_block_is_single_run:
  "(ma_nb rm ew ts fast slow ewm adjust mp = Inr (F, S) \<and> i < length fast \<longrightarrow>
      ma_nb rm ew ts [fast ! i] [slow ! i] ewm adjust mp
        = Inr (block (shape1 ts) i F, block (shape1 ts) i S)
      \<and> (\<forall>j < length fast.
            (fast ! j = fast ! i \<longrightarrow> block (shape1 ts) j F = block (shape1 ts) i F)
          \<and> (slow ! j = slow ! i \<longrightarrow> block (shape1 ts) j S = block (shape1 ts) i S)))
   \<and> (rsi_nb rm ew ts windows ewm adjust mp = Inr R \<and> i < length windows \<longrightarrow>
      rsi_nb rm ew ts [windows ! i] ewm adjust mp = Inr (block (shape1 ts) i R)
      \<and> (\<forall>j < length windows.
            windows ! j = windows ! i \<longrightarrow> block (shape1 ts) j R = block (shape1 ts) i R))
   \<and> (bb_nb rm rs ts ns ks mp = Inr (U, M, L) \<and> i < length ns \<longrightarrow>
      bb_nb rm rs ts [ns ! i] [ks ! i] mp
        = Inr (block (shape1 ts) i U, block (shape1 ts) i M, block (shape1 ts) i L)
      \<and> (\<forall>j < length ns.
            ns ! j = ns ! i \<longrightarrow> block (shape1 ts) j M = block (shape1 ts) i M))"
proof (intro conjI impI allI; (elim conjE)?)
  assume a: "ma_nb rm ew ts fast slow ewm adjust mp = Inr (F, S)" "i < length fast"
  show "ma_nb rm ew ts [fast ! i] [slow ! i] ewm adjust mp
        = Inr (block (shape1 ts) i F, block (shape1 ts) i S)"
    by (rule ma_nb_block [OF a])
  fix j assume j: "j < length fast"
  from ma_nb_same_window [OF a(1) j a(2)]
  show "fast ! j = fast ! i \<Longrightarrow> block (shape1 ts) j F = block (shape1 ts) i F"
    and "slow ! j = slow ! i \<Longrightarrow> block (shape1 ts) j S = block (shape1 ts) i S"
    by simp_all
next
  assume a: "rsi_nb rm ew ts windows ewm adjust mp = Inr R" "i < length windows"
  show "rsi_nb rm ew ts [windows ! i] ewm adjust mp = Inr (block (shape1 ts) i R)"
    by (rule rsi_nb_block [OF a])
  fix j assume j: "j < length windows" "windows ! j = windows ! i"
  show "block (shape1 ts) j R = block (shape1 ts) i R"
    by (rule rsi_nb_same_window [OF a(1) j(1) a(2) j(2)])
next
  assume a: "bb_nb rm rs ts ns ks mp = Inr (U, M, L)" "i < length ns"
  show "bb_nb rm rs ts [ns ! i] [ks ! i] mp
        = Inr (block (shape1 ts) i U, block (shape1 ts) i M, block (shape1 ts) i L)"
    by (rule bb_nb_block [OF a])
  fix j assume j: "j < length ns" "ns ! j = ns ! i"
  show "block (shape1 ts) j M = block (shape1 ts) i M"
    by (rule bb_nb_same_window [OF a(1) j(1) a(2) j(2)])
qed

text \<open>
  The three concrete sweeps below use the simple moving average; with \<open>ewm\<close> false the
  exponential routine is never called and is one that always fails. The deviation of the
  constant prices of the third sweep is zero.
\<close>

theorem sweep_block_is_single_run_witness:
  "ma_nb rolling_mean_nb (\<lambda>a w adjust. Inl InvalidParameter) [[Fin 1, Fin 2, Fin 3]]
       [1, 2, 1] [2, 2, 2] False False True
     = Inr ([[NaN, Fin 2, Fin 3], [NaN, NaN, Fin (5/2)], [NaN, Fin 2, Fin 3]],
            [[NaN, NaN, Fin (5/2)], [NaN, NaN, Fin (5/2)], [NaN, NaN, Fin (5/2)]])
   \<and> ma_nb rolling_mean_nb (\<lambda>a w adjust. Inl InvalidParameter) [[Fin 1, Fin 2, Fin 3]]
       [2] [2] False False True
     = Inr ([[NaN, NaN, Fin (5/2)]], [[NaN, NaN, Fin (5/2)]])
   \<and> rsi_nb rolling_mean_nb (\<lambda>a w adjust. Inl InvalidParameter) [[Fin 1, Fin 2, Fin 4, Fin 3]]
       [1, 2, 1] False False True
     = Inr [[NaN, Fin 100, Fin 100, Fin 0], [NaN, NaN, Fin 100, Fin (200/3)],
            [NaN, Fin 100, Fin 100, Fin 0]]
   \<and> rsi_nb rolling_mean_nb (\<lambda>a w adjust. Inl InvalidParameter) [[Fin 1, Fin 2, Fin 4, Fin 3]]
       [2] False False True
     = Inr [[NaN, NaN, Fin 100, Fin (200/3)]]
   \<and> bb_nb rolling_mean_nb (\<lambda>a w. Inr (full_like a (Fin 0))) [[Fin 5, Fin 5, Fin 5]]
       [2, 2] [1, 2] True
     = Inr ([[NaN, NaN, Fin 5], [NaN, NaN, Fin 5]], [[NaN, NaN, Fin 5], [NaN, NaN, Fin 5]],
            [[NaN, NaN, Fin 5], [NaN, NaN, Fin 5]])
   \<and> bb_nb rolling_mean_nb (\<lambda>a w. Inr (full_like a (Fin 0))) [[Fin 5, Fin 5, Fin 5]]
       [2] [2] True
     = Inr ([[NaN, NaN, Fin 5]], [[NaN, NaN, Fin 5]], [[NaN, NaN, Fin 5]])"
proof -
  let ?ew = "\<lambda>(a::f8 matrix) (w::int) (adjust::bool). (Inl InvalidParameter :: error + f8 matrix)"
  let ?rs = "\<lambda>(a::f8 matrix) (w::int). (Inr (full_like a (Fin 0)) :: error + f8 matrix)"
  let ?F = "[[NaN, Fin 2, Fin 3], [NaN, NaN, Fin (5/2)], [NaN, Fin 2, Fin 3]]"
  let ?S = "[[NaN, NaN, Fin (5/2)], [NaN, NaN, Fin (5/2)], [NaN, NaN, Fin (5/2)]]"
  let ?R = "[[NaN, Fin 100, Fin 100, Fin 0], [NaN, NaN, Fin 100, Fin (200/3)],
            [NaN, Fin 100, Fin 100, Fin 0]]"
  let ?U = "[[NaN, NaN, Fin 5], [NaN, NaN, Fin 5]]"
  have m: "ma_nb rolling_mean_nb ?ew [[Fin 1, Fin 2, Fin 3]] [1, 2, 1] [2, 2, 2] False False True
      = Inr (?F, ?S)"
    by code_simp
  have r: "rsi_nb rolling_mean_nb ?ew [[Fin 1, Fin 2, Fin 4, Fin 3]] [1, 2, 1] False False True
      = Inr ?R"
    by code_simp
  have b: "bb_nb rolling_mean_nb ?rs [[Fin 5, Fin 5, Fin 5]] [2, 2] [1, 2] True = Inr (?U, ?U, ?U)"
    by code_simp
  have i1: "(1::nat) < length [1, 2, 1::int]" and i2: "(1::nat) < length [2, 2::int]"
    by simp_all
  note t1 = sweep_block_is_single_run [where rm = rolling_mean_nb and ew = ?ew
      and ts = "[[Fin 1, Fin 2, Fin 3]]" and fast = "[1, 2, 1]" and slow = "[2, 2, 2]"
      and ewm = False and adjust = False and mp = True and F = ?F and S = ?S and i = 1,
      THEN conjunct1, rule_format, OF conjI, OF m i1, THEN conjunct1]
  note t2 = sweep_block_is_single_run [where rm = rolling_mean_nb and ew = ?ew
      and ts = "[[Fin 1, Fin 2, Fin 4, Fin 3]]" and windows = "[1, 2, 1]"
      and ewm = False and adjust = False and mp = True and R = ?R and i = 1,
      THEN conjunct2, THEN conjunct1, rule_format, OF conjI, OF r i1, THEN conjunct1]
  note t3 = sweep_block_is_single_run [where rm = rolling_mean_nb and rs = ?rs
      and ts = "[[Fin 5, Fin 5, Fin 5]]" and ns = "[2, 2]" and ks = "[1, 2]"
      and mp = True and U = ?U and M = ?U and L = ?U and i = 1,
      THEN conjunct2, THEN conjunct2, rule_format, OF conjI, OF b i2, THEN conjunct1]
  show ?thesis
    using m r b t1 t2 t3 by (simp add: block_def shape1_def)
qed

subsection \<open>Cache entries behind the blocks, and the rows forced to NaN\<close>

lemma the_cache_Some:
  "the_cache body ws Map.empty w = Some v \<longleftrightarrow> w \<in> set ws \<and> body w = Inr v"
  by (auto simp: the_cache_def split: sum.splits)

lemma ma_nb_entries:
  assumes "ma_nb rm ew ts fast slow ewm adjust mp = Inr (F, S)" and "i < length fast"
  shows "\<exists>fm sm. ma_entry rm ew ts ewm adjust mp (fast ! i) = Inr fm
     \<and> ma_entry rm ew ts ewm adjust mp (slow ! i) = Inr sm
     \<and> broadcast_to (shape0 ts) (shape1 ts) fm = Inr (block (shape1 ts) i F)
     \<and> broadcast_to (shape0 ts) (shape1 ts) sm = Inr (block (shape1 ts) i S)"
proof -
  from assms(1) have st: "ma_stack_loop ts
      (the_cache (ma_entry rm ew ts ewm adjust mp) (np_unique (fast @ slow)) Map.empty)
      fast slow 0 = Inr (F, S)"
    by (simp add: ma_nb_Inr)
  from ma_stack_loop_blocks [OF st assms(2)] show ?thesis
    by (auto simp: the_cache_Some)
qed

lemma bb_nb_entries:
  assumes "bb_nb rm rs ts ns ks mp = Inr (U, M, L)" and "i < length ns"
  shows "\<exists>ma mstd up lo. bb_entry rm rs ts mp (ns ! i) = Inr (ma, mstd)
     \<and> matrix_op fadd ma (scale (ks ! i) mstd) = Inr up
     \<and> matrix_op fsub ma (scale (ks ! i) mstd) = Inr lo
     \<and> broadcast_to (shape0 ts) (shape1 ts) up = Inr (block (shape1 ts) i U)
     \<and> broadcast_to (shape0 ts) (shape1 ts) ma = Inr (block (shape1 ts) i M)
     \<and> broadcast_to (shape0 ts) (shape1 ts) lo = Inr (block (shape1 ts) i L)"
proof -
  from assms(1) have st: "bb_stack_loop ts (the_cache (bb_entry rm rs ts mp) ns Map.empty)
      ns ks 0 = Inr (U, M, L)"
    by (simp add: bb_nb_Inr)
  from bb_stack_loop_blocks [OF st assms(2)] show ?thesis
    by (auto simp: the_cache_Some)
qed

lemma rsi_nb_entries:
  assumes "rsi_nb rm ew ts windows ewm adjust mp = Inr R" and "i < length windows"
  shows "\<exists>ru rd rs. rsi_entry rm ew (rsi_up ts) (rsi_down ts) ewm adjust mp (windows ! i) = Inr (ru, rd)
     \<and> matrix_op fdiv ru rd = Inr rs
     \<and> broadcast_to (shape0 ts) (shape1 ts) (map (map rsi_formula) rs)
         = Inr (block (shape1 ts) i R)"
proof -
  from assms(1) have st: "rsi_stack_loop ts
      (the_cache (rsi_entry rm ew (rsi_up ts) (rsi_down ts) ewm adjust mp)
         (np_unique windows) Map.empty) windows = Inr R"
    by (simp add: rsi_nb_Inr)
  from rsi_stack_loop_blocks [OF st assms(2)] show ?thesis
    by (auto simp: the_cache_Some)
qed

lemma shape0_eq: "map length a = map length ts \<Longrightarrow> shape0 a = shape0 ts"
  by (cases a; cases ts) (auto simp: shape0_def)

lemma broadcast_to_shape:
  assumes "\<forall>col \<in> set ts. length col = shape0 ts" and "map length a = map length ts"
  shows "broadcast_to (shape0 ts) (shape1 ts) a = Inr a"
proof -
  from assms(2) have l: "length a = length ts"
    by (rule map_eq_imp_length_eq)
  have "\<forall>col \<in> set a. length col = shape0 ts"
  proof
    fix col assume "col \<in> set a"
    then obtain c where c: "c < length a" "col = a ! c"
      by (auto simp: in_set_conv_nth)
    with assms(2) l have "length col = length (ts ! c)"
      by (metis nth_map)
    with assms(1) c l show "length col = shape0 ts" by simp
  qed
  with l show ?thesis by (simp add: broadcast_to_same shape1_def)
qed

lemma block_nth:
  assumes "length (block C i a) = C" and "c < C"
  shows "block C i a ! c = a ! (i * C + c)"
proof -
  from assms have "i * C + c < length a"
    by (auto simp: block_def min_def split: if_splits)
  with assms show ?thesis by (simp add: block_def)
qed

lemma set_head_lengths [simp]: "map length (set_head w v m) = map length m"
  by (auto simp: set_head_def slice_bound_def)

lemma set_head_nth:
  assumes "0 \<le> w" and "c < length m" and "t < length (m ! c)"
  shows "set_head w v m ! c ! t = (if int t < w then v else m ! c ! t)"
  using assms by (auto simp: set_head_def slice_bound_def nth_append)

lemma block_cell:
  assumes "broadcast_to (shape0 ts) (shape1 ts) a = Inr (block (shape1 ts) i X)"
    and "\<forall>col \<in> set ts. length col = shape0 ts" and "map length a = map length ts"
    and "c < length ts"
  shows "X ! (i * length ts + c) = a ! c"
proof -
  from broadcast_to_shape [OF assms(2,3)] assms(1) have b: "block (shape1 ts) i X = a"
    by simp
  from assms(3) have "length a = length ts" by (rule map_eq_imp_length_eq)
  with b have "length (block (shape1 ts) i X) = shape1 ts" by (simp add: shape1_def)
  from block_nth [OF this, of c] assms(4) b show ?thesis by (simp add: shape1_def)
qed

text \<open>
  C5, as the code has it. With \<open>min_periods\<close> true the first \<open>w\<close> rows of the rolling mean
  for the window \<open>w\<close>, the rows 0 to \<open>w - 1\<close>, are NaN, and the row \<open>w\<close> and every later
  row hold what the rolling routine \<open>rm\<close> produced. This is stated for the cells of the
  blocks of \<^verbatim>\<open>ma_nb\<close> (with \<open>ewm\<close> false) and of the middle band of \<^verbatim>\<open>bb_nb\<close>, for a
  rectangular array of prices and a routine result \<open>m\<close> of the shape of the prices.
\<close>

theorem min_periods_forces_first_w_rows:
  assumes "\<forall>col \<in> set ts. length col = shape0 ts"
    and "rm ts w = Inr m" and "map length m = map length ts"
    and "0 \<le> w" and "c < length ts" and "t < length (ts ! c)"
  shows "(ma_nb rm ew ts fast slow False adjust True = Inr (F, S) \<and> i < length fast \<longrightarrow>
            (fast ! i = w \<longrightarrow> F ! (i * length ts + c) ! t = (if int t < w then NaN else m ! c ! t))
          \<and> (slow ! i = w \<longrightarrow> S ! (i * length ts + c) ! t = (if int t < w then NaN else m ! c ! t)))
       \<and> (bb_nb rm rs ts ns ks True = Inr (U, M, L) \<and> i < length ns \<and> ns ! i = w \<longrightarrow>
            M ! (i * length ts + c) ! t = (if int t < w then NaN else m ! c ! t))"
proof -
  from assms(3) have lm: "length m = length ts" by (rule map_eq_imp_length_eq)
  with assms(3,5) have lc: "length (m ! c) = length (ts ! c)" by (metis nth_map)
  have cell: "set_head w NaN m ! c ! t = (if int t < w then NaN else m ! c ! t)"
    using assms(4,5,6) lm lc by (simp add: set_head_nth)
  have sh: "map length (set_head w NaN m) = map length ts"
    using assms(3) by simp
  have e: "ma_entry rm ew ts False adjust True w = Inr (set_head w NaN m)"
    using assms(2) by (simp add: ma_entry_def)
  have "F ! (i * length ts + c) ! t = (if int t < w then NaN else m ! c ! t)"
    if a: "ma_nb rm ew ts fast slow False adjust True = Inr (F, S)" "i < length fast" "fast ! i = w"
  proof -
    from ma_nb_entries [OF a(1,2)] a(3) e
    have "broadcast_to (shape0 ts) (shape1 ts) (set_head w NaN m) = Inr (block (shape1 ts) i F)"
      by auto
    from block_cell [OF this assms(1) sh assms(5)] cell show ?thesis by simp
  qed
  moreover have "S ! (i * length ts + c) ! t = (if int t < w then NaN else m ! c ! t)"
    if a: "ma_nb rm ew ts fast slow False adjust True = Inr (F, S)" "i < length fast" "slow ! i = w"
  proof -
    from ma_nb_entries [OF a(1,2)] a(3) e
    have "broadcast_to (shape0 ts) (shape1 ts) (set_head w NaN m) = Inr (block (shape1 ts) i S)"
      by auto
    from block_cell [OF this assms(1) sh assms(5)] cell show ?thesis by simp
  qed
  moreover have "M ! (i * length ts + c) ! t = (if int t < w then NaN else m ! c ! t)"
    if a: "bb_nb rm rs ts ns ks True = Inr (U, M, L)" "i < length ns" "ns ! i = w"
  proof -
    from bb_nb_entries [OF a(1,2)] a(3) assms(2)
    have "broadcast_to (shape0 ts) (shape1 ts) (set_head w NaN m) = Inr (block (shape1 ts) i M)"
      by (auto simp: bb_entry_def bindE_eq_Inr)
    from block_cell [OF this assms(1) sh assms(5)] cell show ?thesis by simp
  qed
  ultimately show ?thesis by blast
qed

theorem min_periods_forces_first_w_rows_witness:
  "rolling_mean_nb [[Fin 1, Fin 3, Fin 5]] 2 = Inr [[Fin 1, Fin 2, Fin 4]]
   \<and> ma_nb rolling_mean_nb (\<lambda>a w adjust. Inl InvalidParameter) [[Fin 1, Fin 3, Fin 5]]
        [2] [2] False False True
      = Inr ([[NaN, NaN, Fin 4]], [[NaN, NaN, Fin 4]])
   \<and> [[NaN, NaN, Fin 4]] ! (0 * length [[Fin 1, Fin 3, Fin 5]] + 0) ! 1 = NaN
   \<and> [[NaN, NaN, Fin 4]] ! (0 * length [[Fin 1, Fin 3, Fin 5]] + 0) ! 2
      = [[Fin 1, Fin 2, Fin 4]] ! 0 ! 2
   \<and> bb_nb rolling_mean_nb (\<lambda>a w. Inr (full_like a (Fin 0))) [[Fin 5, Fin 5, Fin 5]]
        [2] [1] True
      = Inr ([[NaN, NaN, Fin 5]], [[NaN, NaN, Fin 5]], [[NaN, NaN, Fin 5]])
   \<and> [[NaN, NaN, Fin 5]] ! (0 * length [[Fin 5, Fin 5, Fin 5]] + 0) ! 1 = NaN"
proof -
  let ?ew = "\<lambda>(a::f8 matrix) (w::int) (adjust::bool). (Inl InvalidParameter :: error + f8 matrix)"
  let ?rs = "\<lambda>(a::f8 matrix) (w::int). (Inr (full_like a (Fin 0)) :: error + f8 matrix)"
  let ?ts = "[[Fin 1, Fin 3, Fin 5]]" and ?m = "[[Fin 1, Fin 2, Fin 4]]"
  let ?ts' = "[[Fin 5, Fin 5, Fin 5]]"
  have rect: "\<forall>col \<in> set ?ts. length col = shape0 ?ts" "\<forall>col \<in> set ?ts'. length col = shape0 ?ts'"
    by (simp_all add: shape0_def)
  have rm: "rolling_mean_nb ?ts 2 = Inr ?m" "rolling_mean_nb ?ts' 2 = Inr ?ts'"
    by code_simp+
  have sh: "map length ?m = map length ?ts" "map length ?ts' = map length ?ts'"
    by simp_all
  have w: "(0::int) \<le> 2" by simp
  have c: "(0::nat) < length ?ts" "(0::nat) < length ?ts'" by simp_all
  have t: "(1::nat) < length (?ts ! 0)" "(2::nat) < length (?ts ! 0)" "(1::nat) < length (?ts' ! 0)"
    by simp_all
  have ma: "ma_nb rolling_mean_nb ?ew ?ts [2] [2] False False True
      = Inr ([[NaN, NaN, Fin 4]], [[NaN, NaN, Fin 4]])"
    by code_simp
  have bb: "bb_nb rolling_mean_nb ?rs ?ts' [2] [1] True
      = Inr ([[NaN, NaN, Fin 5]], [[NaN, NaN, Fin 5]], [[NaN, NaN, Fin 5]])"
    by code_simp
  note a1 = min_periods_forces_first_w_rows [where rm = rolling_mean_nb and ts = ?ts
        and w = 2 and m = ?m and c = 0 and t = 1
        and ew = ?ew and fast = "[2]" and slow = "[2]" and adjust = False
        and F = "[[NaN, NaN, Fin 4]]" and S = "[[NaN, NaN, Fin 4]]" and i = 0,
      OF rect(1) rm(1) sh(1) w c(1) t(1), THEN conjunct1]
  note a2 = min_periods_forces_first_w_rows [where rm = rolling_mean_nb and ts = ?ts
        and w = 2 and m = ?m and c = 0 and t = 2
        and ew = ?ew and fast = "[2]" and slow = "[2]" and adjust = False
        and F = "[[NaN, NaN, Fin 4]]" and S = "[[NaN, NaN, Fin 4]]" and i = 0,
      OF rect(1) rm(1) sh(1) w c(1) t(2), THEN conjunct1]
  note a3 = min_periods_forces_first_w_rows [where rm = rolling_mean_nb and ts = ?ts'
        and w = 2 and m = ?ts' and c = 0 and t = 1
        and rs = ?rs and ns = "[2]" and ks = "[1]" and U = "[[NaN, NaN, Fin 5]]"
        and M = "[[NaN, NaN, Fin 5]]" and L = "[[NaN, NaN, Fin 5]]" and i = 0,
      OF rect(2) rm(2) sh(2) w c(2) t(3), THEN conjunct2]
  from a1 ma have "[[NaN, NaN, Fin 4]] ! (0 * length ?ts + 0) ! 1 = NaN" by simp
  moreover from a2 ma have "[[NaN, NaN, Fin 4]] ! (0 * length ?ts + 0) ! 2 = ?m ! 0 ! 2" by simp
  moreover from a3 bb have "[[NaN, NaN, Fin 5]] ! (0 * length ?ts' + 0) ! 1 = NaN" by simp
  ultimately show ?thesis using rm(1) ma bb by blast
qed

text \<open>
  The claim that only the rows 0 to \<open>w - 2\<close> are forced fails for the window 2 on the prices
  \<open>[1, 3, 5]\<close>: the rolling mean is 2 in row \<open>w - 1 = 1\<close>, and \<^verbatim>\<open>ma_nb\<close> returns NaN there.
\<close>

theorem min_periods_row_counterexample:
  "rolling_mean_nb [[Fin 1, Fin 3, Fin 5]] 2 = Inr [[Fin 1, Fin 2, Fin 4]]
   \<and> ma_nb rolling_mean_nb (\<lambda>a w adjust. Inl InvalidParameter) [[Fin 1, Fin 3, Fin 5]]
        [2] [2] False False True
      = Inr ([[NaN, NaN, Fin 4]], [[NaN, NaN, Fin 4]])
   \<and> [[Fin 1, Fin 2, Fin 4]] ! 0 ! (2 - 1) = Fin 2
   \<and> [[NaN, NaN, Fin 4 :: f8]] ! 0 ! (2 - 1) = NaN"
  by code_simp

subsection \<open>Cells of elementwise operations, and the Bollinger bands\<close>

lemma common_dim_same [simp]: "common_dim n n = Inr n"
  by (simp add: common_dim_def)

lemma matrix_op_shape:
  assumes "\<forall>col \<in> set ts. length col = shape0 ts"
    and "map length a = map length ts" and "map length b = map length ts"
  shows "matrix_op f a b = Inr (map2 (\<lambda>x y. map2 f x y) a b)"
proof -
  have s0: "shape0 a = shape0 ts" "shape0 b = shape0 ts"
    by (rule shape0_eq [OF assms(2)], rule shape0_eq [OF assms(3)])
  have s1: "shape1 a = shape1 ts" "shape1 b = shape1 ts"
    using map_eq_imp_length_eq [OF assms(2)] map_eq_imp_length_eq [OF assms(3)]
    by (simp_all add: shape1_def)
  show ?thesis
    by (simp add: matrix_op_def broadcast_arrays_def s0 s1
        broadcast_to_shape [OF assms(1,2)] broadcast_to_shape [OF assms(1,3)])
qed

lemma map2_lengths:
  "map length a = map length ts \<Longrightarrow> map length b = map length ts \<Longrightarrow>
     map length (map2 (\<lambda>x y. map2 f x y) a b) = map length ts"
proof (induction a arbitrary: b ts)
  case Nil
  then show ?case by simp
next
  case (Cons x a)
  then show ?case by (cases b; cases ts) auto
qed

lemma cell_length:
  assumes "map length a = map length ts" and "c < length ts"
  shows "c < length a" and "length (a ! c) = length (ts ! c)"
proof -
  from assms(1) have l: "length a = length ts" by (rule map_eq_imp_length_eq)
  with assms(2) show "c < length a" by simp
  then have "map length a ! c = length (a ! c)" by simp
  moreover from assms(2) have "map length ts ! c = length (ts ! c)" by simp
  ultimately show "length (a ! c) = length (ts ! c)" using assms(1) by simp
qed

lemma map2_cell:
  assumes "map length a = map length ts" and "map length b = map length ts"
    and "c < length ts" and "t < length (ts ! c)"
  shows "map2 (\<lambda>x y. map2 f x y) a b ! c ! t = f (a ! c ! t) (b ! c ! t)"
  using cell_length [OF assms(1,3)] cell_length [OF assms(2,3)] assms(4) by simp


lemma scale_lengths [simp]: "map length (scale k a) = map length a"
  by (simp add: scale_def)





subsection \<open>The RSI of a cell\<close>

lemma rsi_formula_fin:
  assumes "0 \<le> r"
  shows "rsi_formula (Fin r) = Fin (100 - 100 / (1 + r))" and "0 \<le> 100 - 100 / (1 + r)"
    and "100 - 100 / (1 + r) \<le> 100"
proof -
  from assms have p: "0 < 1 + r" by simp
  then show "rsi_formula (Fin r) = Fin (100 - 100 / (1 + r))"
    by (simp add: rsi_formula_def fsub_def)
  from assms p have "100 / (1 + r) \<le> 100"
    by (simp add: divide_le_eq)
  then show "0 \<le> 100 - 100 / (1 + r)" by simp
  from p have "0 \<le> 100 / (1 + r)" by simp
  then show "100 - 100 / (1 + r) \<le> 100" by simp
qed

lemma fdiv_nonneg: "nonneg u \<Longrightarrow> nonneg d \<Longrightarrow> nonneg (fdiv u d)"
  by (cases u; cases d) (auto simp: nonneg_def inf_of_sign_def divide_less_0_iff)

lemma rsi_formula_range: "nonneg rs \<Longrightarrow> in_rsi_range (rsi_formula rs)"
proof (cases rs)
  case (Fin r)
  assume "nonneg rs"
  with Fin have "0 \<le> r" by (simp add: nonneg_def)
  from rsi_formula_fin [OF this] Fin show ?thesis by (simp add: in_rsi_range_def)
qed (auto simp: nonneg_def rsi_formula_def fsub_def in_rsi_range_def)

lemma rsi_formula_all_up:
  assumes "0 < u" and "d = Fin 0"
  shows "rsi_formula (fdiv (Fin u) d) = Fin 100"
  using assms by (simp add: rsi_formula_def fsub_def inf_of_sign_def)

text \<open>
  The up-moves and down-moves are not below zero, and the simple moving average keeps
  that, as do the row put on top and the rows forced to NaN.
\<close>

lemma map2_same: "map2 g xs (map f xs) = map (\<lambda>x. g x (f x)) xs"
  by (induction xs) simp_all

lemma rsi_up_eq:
  "rsi_up ts = map (map (\<lambda>x. if flt x (Fin 0) then Fin 0 else x)) (map (drop 1) (diff_nb ts))"
  by (simp add: rsi_up_def set_by_mask_nb_def Let_def map2_same)

lemma rsi_down_eq:
  "rsi_down ts
     = map (map (\<lambda>x. fabs (if fgt x (Fin 0) then Fin 0 else x))) (map (drop 1) (diff_nb ts))"
  by (simp add: rsi_down_def set_by_mask_nb_def Let_def map2_same comp_def)

lemma nonneg_simps [simp]: "nonneg NaN" "nonneg PInf" "nonneg (Fin r) \<longleftrightarrow> 0 \<le> r" "\<not> nonneg NInf"
  by (auto simp: nonneg_def)

lemma up_move_nonneg: "nonneg (if flt x (Fin 0) then Fin 0 else x)"
  by (simp add: nonneg_def)

lemma down_move_nonneg: "nonneg (fabs (if fgt x (Fin 0) then Fin 0 else x))"
  by (cases x) (auto simp: fgt_def)

lemma in_map_map: "col \<in> set (map (map h) a) \<Longrightarrow> x \<in> set col \<Longrightarrow> \<exists>x0. x = h x0"
  by auto

lemma rsi_up_nonneg: "\<forall>col \<in> set (rsi_up ts). \<forall>x \<in> set col. nonneg x"
proof (intro ballI)
  fix col x assume "col \<in> set (rsi_up ts)" "x \<in> set col"
  then obtain x0 where "x = (if flt x0 (Fin 0) then Fin 0 else x0)"
    unfolding rsi_up_eq by (blast dest: in_map_map)
  then show "nonneg x" by (simp only: up_move_nonneg)
qed

lemma rsi_down_nonneg: "\<forall>col \<in> set (rsi_down ts). \<forall>x \<in> set col. nonneg x"
proof (intro ballI)
  fix col x assume "col \<in> set (rsi_down ts)" "x \<in> set col"
  then obtain x0 where "x = fabs (if fgt x0 (Fin 0) then Fin 0 else x0)"
    unfolding rsi_down_eq by (blast dest: in_map_map)
  then show "nonneg x" by (simp only: down_move_nonneg)
qed

lemma fadd_nonneg: "nonneg a \<Longrightarrow> nonneg b \<Longrightarrow> nonneg (fadd a b)"
  by (cases a; cases b) auto

lemma foldl_fadd_nonneg:
  "nonneg acc \<Longrightarrow> \<forall>x \<in> set xs. nonneg x \<Longrightarrow> nonneg (foldl fadd acc xs)"
  by (induction xs arbitrary: acc) (simp_all add: fadd_nonneg)

lemma mean_nonneg: "\<forall>x \<in> set xs. nonneg x \<Longrightarrow> nonneg (mean xs)"
  unfolding mean_def
  by (rule fdiv_nonneg, rule foldl_fadd_nonneg) simp_all

lemma rolling_mean_col_nonneg:
  assumes "\<forall>x \<in> set col. nonneg x" and "y \<in> set (rolling_mean_col w col)"
  shows "nonneg y"
proof -
  from assms(2) obtain t where "y = mean (drop (Suc t - w) (take (Suc t) col))"
    by (auto simp: rolling_mean_col_def)
  moreover have "\<forall>x \<in> set (drop (Suc t - w) (take (Suc t) col)). nonneg x"
    using assms(1) by (meson in_set_dropD in_set_takeD)
  ultimately show ?thesis by (simp add: mean_nonneg)
qed

lemma rolling_mean_nb_nonneg:
  assumes "rolling_mean_nb a w = Inr m" and "\<forall>col \<in> set a. \<forall>x \<in> set col. nonneg x"
  shows "\<forall>col \<in> set m. \<forall>y \<in> set col. nonneg y"
proof (intro ballI)
  fix col y assume cy: "col \<in> set m" "y \<in> set col"
  from assms(1) have "m = map (rolling_mean_col (nat w)) a"
    by (simp add: rolling_mean_nb_def split: if_splits)
  with cy(1) obtain col0 where "col0 \<in> set a" "col = rolling_mean_col (nat w) col0"
    by auto
  with assms(2) cy(2) show "nonneg y"
    using rolling_mean_col_nonneg [of col0 y "nat w"] by blast
qed

lemma prepend_set_head_nonneg:
  assumes "\<forall>col \<in> set a. \<forall>x \<in> set col. nonneg x"
  shows "\<forall>col \<in> set (if mp then set_head w NaN (prepend_nb a 1 NaN) else prepend_nb a 1 NaN).
           \<forall>y \<in> set col. nonneg y"
proof (intro ballI)
  fix col y
  assume cy: "col \<in> set (if mp then set_head w NaN (prepend_nb a 1 NaN) else prepend_nb a 1 NaN)"
    "y \<in> set col"
  have p: "nonneg y'" if "col' \<in> set (prepend_nb a 1 NaN)" "y' \<in> set col'" for col' y'
    using that assms by (auto simp: prepend_nb_def)
  show "nonneg y"
  proof (cases mp)
    case False
    with cy p show ?thesis by simp
  next
    case True
    with cy(1) obtain col' where c: "col' \<in> set (prepend_nb a 1 NaN)"
      "col = replicate (slice_bound (length col') w) NaN @ drop (slice_bound (length col') w) col'"
      by (auto simp: set_head_def)
    from c(2) cy(2) have "y = NaN \<or> y \<in> set col'"
      by (auto dest: in_set_dropD)
    with p [OF c(1)] show ?thesis by auto
  qed
qed

lemma rsi_entry_sma_nonneg:
  assumes "rsi_entry rolling_mean_nb ew (rsi_up ts) (rsi_down ts) False adjust mp w = Inr (ru, rd)"
  shows "\<forall>col \<in> set ru. \<forall>y \<in> set col. nonneg y" and "\<forall>col \<in> set rd. \<forall>y \<in> set col. nonneg y"
proof -
  from assms obtain u0 d0 where
    u: "rolling_mean_nb (rsi_up ts) w = Inr u0" and d: "rolling_mean_nb (rsi_down ts) w = Inr d0"
    and r: "ru = (if mp then set_head w NaN (prepend_nb u0 1 NaN) else prepend_nb u0 1 NaN)"
           "rd = (if mp then set_head w NaN (prepend_nb d0 1 NaN) else prepend_nb d0 1 NaN)"
    by (auto simp: rsi_entry_def bindE_eq_Inr Let_def split: if_splits)
  show "\<forall>col \<in> set ru. \<forall>y \<in> set col. nonneg y"
    unfolding r
    by (rule prepend_set_head_nonneg [OF rolling_mean_nb_nonneg [OF u rsi_up_nonneg]])
  show "\<forall>col \<in> set rd. \<forall>y \<in> set col. nonneg y"
    unfolding r
    by (rule prepend_set_head_nonneg [OF rolling_mean_nb_nonneg [OF d rsi_down_nonneg]])
qed

text \<open>
  C8. A cell of block \<open>i\<close> of \<^verbatim>\<open>rsi_nb\<close> is \<open>100 - 100 / (1 + avg_up / avg_down)\<close> for the
  smoothed up-move and down-move of the cell, the cached pair of the window
  \<open>windows[i]\<close>. When neither average is below zero, the cell is NaN or a number from 0
  to 100; it is never an infinity. When \<open>avg_down\<close> is 0 and \<open>avg_up\<close> is positive, the
  quotient is \<open>+inf\<close> and the cell is exactly 100. With the simple moving average
  (\<open>ewm\<close> false) the averages are never below zero, so every cell is NaN or in
  \<open>[0, 100]\<close>. The prices are a rectangular array and the two averages have its shape.
\<close>

theorem rsi_cell_formula_and_range:
  assumes "\<forall>col \<in> set ts. length col = shape0 ts"
    and "rsi_nb rm ew ts windows ewm adjust mp = Inr R" and "i < length windows"
    and "rsi_entry rm ew (rsi_up ts) (rsi_down ts) ewm adjust mp (windows ! i) = Inr (ru, rd)"
    and "map length ru = map length ts" and "map length rd = map length ts"
    and "c < length ts" and "t < length (ts ! c)"
  shows "R ! (i * length ts + c) ! t
           = fsub (Fin 100) (fdiv (Fin 100) (fadd (Fin 1) (fdiv (ru ! c ! t) (rd ! c ! t))))
     \<and> (nonneg (ru ! c ! t) \<and> nonneg (rd ! c ! t) \<longrightarrow>
           in_rsi_range (R ! (i * length ts + c) ! t))
     \<and> (rd ! c ! t = Fin 0 \<and> (\<exists>u. ru ! c ! t = Fin u \<and> 0 < u) \<longrightarrow>
           R ! (i * length ts + c) ! t = Fin 100)
     \<and> (rm = rolling_mean_nb \<and> \<not> ewm \<longrightarrow> in_rsi_range (R ! (i * length ts + c) ! t))"
proof -
  let ?rs = "map2 (\<lambda>x y. map2 fdiv x y) ru rd"
  have sh: "map length ?rs = map length ts"
    by (rule map2_lengths [OF assms(5,6)])
  then have sh': "map length (map (map rsi_formula) ?rs) = map length ts"
    by (simp add: comp_def)
  from rsi_nb_entries [OF assms(2,3)] assms(4)
  have "broadcast_to (shape0 ts) (shape1 ts) (map (map rsi_formula) ?rs)
      = Inr (block (shape1 ts) i R)"
    by (auto simp: matrix_op_shape [OF assms(1,5,6)])
  from block_cell [OF this assms(1) sh' assms(7)]
  have "R ! (i * length ts + c) ! t = map (map rsi_formula) ?rs ! c ! t" by simp
  also have "\<dots> = rsi_formula (?rs ! c ! t)"
    using cell_length [OF sh assms(7)] assms(8) by simp
  also have "\<dots> = rsi_formula (fdiv (ru ! c ! t) (rd ! c ! t))"
    by (simp only: map2_cell [OF assms(5,6,7,8)])
  finally have cell: "R ! (i * length ts + c) ! t = rsi_formula (fdiv (ru ! c ! t) (rd ! c ! t))" .
  have "R ! (i * length ts + c) ! t
      = fsub (Fin 100) (fdiv (Fin 100) (fadd (Fin 1) (fdiv (ru ! c ! t) (rd ! c ! t))))"
    unfolding cell by (simp add: rsi_formula_def)
  moreover have "in_rsi_range (R ! (i * length ts + c) ! t)"
    if "nonneg (ru ! c ! t)" "nonneg (rd ! c ! t)"
    unfolding cell using that by (intro rsi_formula_range fdiv_nonneg)
  moreover have "in_rsi_range (R ! (i * length ts + c) ! t)" if "rm = rolling_mean_nb" "\<not> ewm"
  proof -
    from assms(4) that
    have n: "\<forall>col \<in> set ru. \<forall>y \<in> set col. nonneg y" "\<forall>col \<in> set rd. \<forall>y \<in> set col. nonneg y"
      by (auto dest: rsi_entry_sma_nonneg)
    have "ru ! c ! t \<in> set (ru ! c)" "ru ! c \<in> set ru" "rd ! c ! t \<in> set (rd ! c)" "rd ! c \<in> set rd"
      using cell_length [OF assms(5,7)] cell_length [OF assms(6,7)] assms(8) by simp_all
    with n have "nonneg (ru ! c ! t)" "nonneg (rd ! c ! t)" by blast+
    then show ?thesis
      unfolding cell by (intro rsi_formula_range fdiv_nonneg)
  qed
  moreover have "R ! (i * length ts + c) ! t = Fin 100"
    if "rd ! c ! t = Fin 0" "ru ! c ! t = Fin u" "0 < u" for u
    unfolding cell that(2) using that(3,1) by (rule rsi_formula_all_up)
  ultimately show ?thesis by blast
qed

theorem rsi_cell_formula_and_range_witness:
  "rsi_nb rolling_mean_nb (\<lambda>a w adjust. Inl InvalidParameter) [[Fin 1, Fin 2, Fin 4, Fin 3]]
       [1, 2, 1] False False True
     = Inr [[NaN, Fin 100, Fin 100, Fin 0], [NaN, NaN, Fin 100, Fin (200/3)],
            [NaN, Fin 100, Fin 100, Fin 0]]
   \<and> rsi_entry rolling_mean_nb (\<lambda>a w adjust. Inl InvalidParameter)
        (rsi_up [[Fin 1, Fin 2, Fin 4, Fin 3]]) (rsi_down [[Fin 1, Fin 2, Fin 4, Fin 3]])
        False False True 2
     = Inr ([[NaN, NaN, Fin (3/2), Fin 1]], [[NaN, NaN, Fin 0, Fin (1/2)]])
   \<and> fsub (Fin 100) (fdiv (Fin 100) (fadd (Fin 1) (fdiv (Fin 1) (Fin (1/2))))) = Fin (200/3)
   \<and> in_rsi_range (Fin (200/3))
   \<and> fsub (Fin 100) (fdiv (Fin 100) (fadd (Fin 1) (fdiv (Fin (3/2)) (Fin 0)))) = Fin 100"
proof -
  let ?ew = "\<lambda>(a::f8 matrix) (w::int) (adjust::bool). (Inl InvalidParameter :: error + f8 matrix)"
  let ?ts = "[[Fin 1, Fin 2, Fin 4, Fin 3]]"
  let ?R = "[[NaN, Fin 100, Fin 100, Fin 0], [NaN, NaN, Fin 100, Fin (200/3)],
            [NaN, Fin 100, Fin 100, Fin 0]]"
  let ?ru = "[[NaN, NaN, Fin (3/2), Fin 1]]" and ?rd = "[[NaN, NaN, Fin 0, Fin (1/2)]]"
  have rect: "\<forall>col \<in> set ?ts. length col = shape0 ?ts"
    by (simp add: shape0_def)
  have r: "rsi_nb rolling_mean_nb ?ew ?ts [1, 2, 1] False False True = Inr ?R"
    by code_simp
  have en: "rsi_entry rolling_mean_nb ?ew (rsi_up ?ts) (rsi_down ?ts) False False True
      ([1, 2, 1] ! 1) = Inr (?ru, ?rd)"
    by code_simp
  have h: "(1::nat) < length [1, 2, 1::int]" "map length ?ru = map length ?ts"
      "map length ?rd = map length ?ts" "(0::nat) < length ?ts"
      "(3::nat) < length (?ts ! 0)" "(2::nat) < length (?ts ! 0)"
    by simp_all
  note a = rsi_cell_formula_and_range [where rm = rolling_mean_nb and ew = ?ew and ts = ?ts
      and windows = "[1, 2, 1]" and ewm = False and adjust = False and mp = True and R = ?R
      and i = 1 and ru = ?ru and rd = ?rd and c = 0 and t = 3,
      OF rect r h(1) en h(2,3,4,5)]
  note b = rsi_cell_formula_and_range [where rm = rolling_mean_nb and ew = ?ew and ts = ?ts
      and windows = "[1, 2, 1]" and ewm = False and adjust = False and mp = True and R = ?R
      and i = 1 and ru = ?ru and rd = ?rd and c = 0 and t = 2,
      OF rect r h(1) en h(2,3,4,6)]
  from a have "fsub (Fin 100) (fdiv (Fin 100) (fadd (Fin 1) (fdiv (Fin 1) (Fin (1/2)))))
      = Fin (200/3)" and "in_rsi_range (Fin (200/3))"
    by (simp_all add: fsub_def)
  moreover from b
  have "fsub (Fin 100) (fdiv (Fin 100) (fadd (Fin 1) (fdiv (Fin (3/2)) (Fin 0)))) = Fin 100"
    by (simp add: fsub_def inf_of_sign_def)
  ultimately show ?thesis using r en by simp
qed

subsection \<open>The windows for which the rolling routines run\<close>

text \<open>
  The cache loop runs its body once for every element of the list it ranges over. In
  \<^verbatim>\<open>ma_nb\<close> and \<^verbatim>\<open>rsi_nb\<close> that list is \<^verbatim>\<open>np.unique\<close> of the windows, so every
  distinct window is computed once. In \<^verbatim>\<open>bb_nb\<close> it is the array \<open>ns\<close> itself.
\<close>

lemma cache_loop_calls:
  "cache_loop body ws (d, []) = Inr (d', calls) \<Longrightarrow> calls = ws"
  by (simp add: cache_loop_Inr)

lemma ma_build_cache_calls:
  assumes "ma_build_cache rm ew ts fast slow ewm adjust mp = Inr (d, calls)"
  shows "distinct calls" and "set calls = set fast \<union> set slow"
  using assms by (auto simp: ma_build_cache_def dest!: cache_loop_calls)

lemma rsi_build_cache_calls:
  assumes "rsi_build_cache rm ew ts windows ewm adjust mp = Inr (d, calls)"
  shows "distinct calls" and "set calls = set windows"
  using assms by (auto simp: rsi_build_cache_def dest!: cache_loop_calls)

lemma bb_build_cache_calls:
  assumes "bb_build_cache rm rs ts ns mp = Inr (d, calls)"
  shows "calls = ns"
  using assms by (auto simp: bb_build_cache_def dest!: cache_loop_calls)

text \<open>
  C9. \<^verbatim>\<open>bb_nb\<close> does not deduplicate its windows: for the sweep \<open>ns = [2, 2]\<close> the rolling
  routines run twice for the window 2, while \<^verbatim>\<open>ma_nb\<close> and \<^verbatim>\<open>rsi_nb\<close> run them once
  for the same repeated window.
\<close>

theorem bb_nb_recomputes_repeated_window:
  "(\<exists>d. bb_build_cache rolling_mean_nb (\<lambda>a w. Inr (full_like a (Fin 0)))
          [[Fin 5, Fin 5, Fin 5]] [2, 2] True = Inr (d, [2, 2]))
   \<and> (\<exists>d. ma_build_cache rolling_mean_nb (\<lambda>a w adjust. Inl InvalidParameter)
          [[Fin 5, Fin 5, Fin 5]] [2, 2] [2, 2] False False True = Inr (d, [2]))
   \<and> (\<exists>d. rsi_build_cache rolling_mean_nb (\<lambda>a w adjust. Inl InvalidParameter)
          [[Fin 5, Fin 5, Fin 5]] [2, 2] False False True = Inr (d, [2]))"
  by (simp add: bb_build_cache_def ma_build_cache_def rsi_build_cache_def cache_loop_Inr
      np_unique_def bb_entry_def ma_entry_def rsi_entry_def rolling_mean_nb_def)

subsection \<open>The trailing-stop mask before the entry\<close>

lemma fmul_NaN_right [simp]: "fmul x NaN = NaN"
  by (cases x) simp_all

lemma flt_NaN_right [simp]: "\<not> flt x NaN"
  by (cases x) simp_all

lemma rolling_max_nb_length [simp]: "length (rolling_max_nb a) = length a"
proof -
  have "length (expanding_max_from m xs) = length xs" for m xs
    by (induction xs arbitrary: m) simp_all
  then show ?thesis by (cases a) (simp_all add: rolling_max_nb_def)
qed

lemma relative_stop_before_entry:
  assumes "broadcast2 fmul A (replicate k NaN @ rest) = Inr s2"
    and "0 < k"
  shows "(length s2 = k + length rest \<and> (\<forall>j < k. s2 ! j = NaN))
       \<or> (\<forall>j < length s2. s2 ! j = NaN)"
proof -
  let ?peak = "replicate k NaN @ rest"
  consider (eq) "length A = length ?peak" "s2 = map2 fmul A ?peak"
    | (left) "length A = 1" "s2 = map (fmul (hd A)) ?peak"
    | (right) "length ?peak = 1" "s2 = map (\<lambda>x. fmul x (hd ?peak)) A"
    using assms(1) by (auto simp: broadcast2_def split: if_splits)
  then show ?thesis
  proof cases
    case eq
    then show ?thesis by (auto simp: nth_append)
  next
    case left
    then show ?thesis by (auto simp: nth_append)
  next
    case right
    from assms(2) have "hd ?peak = NaN" by (cases k) simp_all
    with right show ?thesis by simp
  qed
qed

lemma mask_before_entry:
  assumes "broadcast2 flt col s2 = Inr m" and "length col = k + length rest"
    and "(length s2 = k + length rest \<and> (\<forall>j < k. s2 ! j = NaN))
       \<or> (\<forall>j < length s2. s2 ! j = NaN)"
    and "t' < k" and "t' < length m"
  shows "\<not> m ! t'"
proof -
  consider (eq) "length col = length s2" "m = map2 flt col s2"
    | (left) "length col = 1" "length col \<noteq> length s2" "m = map (flt (hd col)) s2"
    | (right) "length s2 = 1" "length col \<noteq> length s2" "m = map (\<lambda>x. flt x (hd s2)) col"
    using assms(1) by (auto simp: broadcast2_def split: if_splits)
  then show ?thesis
  proof cases
    case eq
    with assms(3,4,5) have "s2 ! t' = NaN" by auto
    with eq assms(5) show ?thesis by simp
  next
    case left
    with assms(2,3,5) have "s2 ! t' = NaN" by auto
    with left assms(5) show ?thesis by simp
  next
    case right
    with assms(2,3) have "s2 ! 0 = NaN" by auto
    with right(1) have "hd s2 = NaN" by (cases s2) simp_all
    with right assms(5) show ?thesis by simp
  qed
qed

text \<open>
  C10, as the code has it. With a relative stop the mask of the trailing stop is false at
  every index before the entry index: the peak is NaN there, the threshold
  \<open>(1 - stop) * peak\<close> is NaN, and no price is below NaN. The mask of the fixed stop-loss
  compares the whole column and can be true before the entry index, as for the prices
  \<open>[1, 5]\<close>, the absolute stop 3 and the entry in row 1.
\<close>

theorem tstop_mask_false_before_entry:
  assumes "tstop_exit_mask_nb entries (int c) (int e) ts stop True = Inr m"
    and "t' < e" and "t' < length m"
  shows "\<not> m ! t'
     \<and> stoploss_exit_mask_nb [[False, True]] 0 1 [[Fin 1, Fin 5]] [[Fin 3, Fin 3]] False
         = Inr [True, False]"
proof -
  from assms(1) obtain ts_col stop1 s2 where
    s2: "broadcast2 fmul (map (\<lambda>s. fsub (Fin 1) s) stop1)
           (replicate (slice_bound (length ts_col) (int e)) NaN
              @ rolling_max_nb (drop (slice_bound (length ts_col) (int e)) ts_col)) = Inr s2"
    and m: "broadcast2 flt ts_col s2 = Inr m"
    by (auto simp: tstop_exit_mask_nb_def bindE_eq_Inr Let_def)
  let ?k = "slice_bound (length ts_col) (int e)"
  let ?rest = "rolling_max_nb (drop ?k ts_col)"
  have k: "?k = min (length ts_col) e" by (simp add: slice_bound_def)
  have len: "length ts_col = ?k + length ?rest" by (simp add: k)
  have "\<not> m ! t'"
  proof (cases "length ts_col = 0")
    case True
    with m assms(3) show ?thesis
      by (auto simp: broadcast2_def split: if_splits)
  next
    case False
    with assms(2) k have pos: "0 < ?k" by simp
    note P = relative_stop_before_entry [OF s2 pos]
    show ?thesis
    proof (cases "t' < ?k")
      case True
      from mask_before_entry [OF m len P True assms(3)] show ?thesis .
    next
      case False
      with assms(2) k have big: "length ts_col \<le> t'" by simp
      consider (eq) "length ts_col = length s2" "m = map2 flt ts_col s2"
        | (left) "length ts_col = 1" "length ts_col \<noteq> length s2" "m = map (flt (hd ts_col)) s2"
        | (right) "length s2 = 1" "m = map (\<lambda>x. flt x (hd s2)) ts_col"
        using m by (auto simp: broadcast2_def split: if_splits)
      then show ?thesis
      proof cases
        case eq
        with big assms(3) show ?thesis by simp
      next
        case left
        with P k assms(2) have "\<forall>j < length s2. s2 ! j = NaN" by auto
        with left assms(3) show ?thesis by simp
      next
        case right
        with big assms(3) show ?thesis by simp
      qed
    qed
  qed
  moreover have "stoploss_exit_mask_nb [[False, True]] 0 1 [[Fin 1, Fin 5]] [[Fin 3, Fin 3]] False
      = Inr [True, False]"
    by code_simp
  ultimately show ?thesis by simp
qed

theorem tstop_mask_false_before_entry_witness:
  "tstop_exit_mask_nb [[False, True, False]] 0 1 [[Fin 1, Fin 5, Fin 4]]
       [[Fin (1/10), Fin (1/10), Fin (1/10)]] True = Inr [False, False, True]
   \<and> (0::nat) < 1 \<and> (0::nat) < length [False, False, True]
   \<and> \<not> [False, False, True] ! 0"
proof -
  have m: "tstop_exit_mask_nb [[False, True, False]] (int 0) (int 1) [[Fin 1, Fin 5, Fin 4]]
       [[Fin (1/10), Fin (1/10), Fin (1/10)]] True = Inr [False, False, True]"
    by code_simp
  have h: "(0::nat) < 1" "(0::nat) < length [False, False, True]" by simp_all
  from tstop_mask_false_before_entry [OF m h] have "\<not> [False, False, True] ! 0" by blast
  with m h show ?thesis by simp
qed

text \<open>
  With an absolute stop the trailing-stop mask compares the prices with the stop itself and
  not with the peak, so it can be true before the entry: the same prices, stop and entry.
\<close>

theorem tstop_mask_absolute_counterexample:
  "tstop_exit_mask_nb [[False, True]] 0 1 [[Fin 1, Fin 5]] [[Fin 3, Fin 3]] False
     = Inr [True, False]"
  by code_simp

end
